theory Spec2Isabelle
  imports Main
begin

section \<open>JavaScript values used by the front end\<close>

text \<open>
  A JavaScript string is a sequence of UTF-16 code units; \<open>length\<close>, \<open>substring\<close>,
  \<open>startsWith\<close> and \<open>trim\<close> all count code units. The literals of the source that are
  plain ASCII are written with \<open>js\<close>; the Japanese ones are given by their code units.
\<close>

type_synonym jsstring = "nat list"

definition js :: "string \<Rightarrow> jsstring" where
  "js s = map of_char s"

text \<open>\<open>s.startsWith(p)\<close> and \<open>s.substring(0, n)\<close>.\<close>

definition startsWith :: "jsstring \<Rightarrow> jsstring \<Rightarrow> bool" where
  "startsWith s p = (take (length p) s = p)"

definition substring0 :: "jsstring \<Rightarrow> nat \<Rightarrow> jsstring" where
  "substring0 s n = take n s"

text \<open>
  An optional string field (\<open>result?: string\<close>) is \<open>None\<close> when the property is absent.
  In a condition (\<open>x && ...\<close>, \<open>x || d\<close>) a string counts as true exactly when it is
  present and not empty.
\<close>

fun truthy :: "jsstring option \<Rightarrow> bool" where
  "truthy None = False"
| "truthy (Some s) = (s \<noteq> [])"

fun or_default :: "jsstring option \<Rightarrow> jsstring \<Rightarrow> jsstring" where
  "or_default None d = d"
| "or_default (Some s) d = (if s \<noteq> [] then s else d)"

text \<open>
  \<open>String.prototype.trim\<close> removes the WhiteSpace and LineTerminator code units of
  ECMAScript from both ends: TAB, LF, VT, FF, CR, SP, NBSP, U+1680, U+2000 to U+200A,
  U+2028, U+2029, U+202F, U+205F, U+3000 and U+FEFF.
\<close>

definition isWhiteSpace :: "nat \<Rightarrow> bool" where
  "isWhiteSpace c =
     (c = 9 \<or> c = 10 \<or> c = 11 \<or> c = 12 \<or> c = 13 \<or> c = 32 \<or> c = 160 \<or> c = 5760
      \<or> (8192 \<le> c \<and> c \<le> 8202) \<or> c = 8232 \<or> c = 8233 \<or> c = 8239 \<or> c = 8287
      \<or> c = 12288 \<or> c = 65279)"

definition trim :: "jsstring \<Rightarrow> jsstring" where
  "trim s = rev (dropWhile isWhiteSpace (rev (dropWhile isWhiteSpace s)))"

section \<open>The wire types declared by the front end\<close>

text \<open>
  \<open>interface UploadResponse\<close> of hooks/useApi.ts; \<open>interface SessionInfo\<close> of the page
  declares the same five fields, and the page stores an upload response as its session.
\<close>

record UploadResponse =
  session_id :: jsstring
  filename :: jsstring
  columns :: "jsstring list"
  rows :: int
  columns_count :: int

type_synonym SessionInfo = UploadResponse

text \<open>
  \<open>interface QueryResponse\<close> of hooks/useApi.ts, which is \<open>interface Result\<close> of the page
  and of ResultDisplay. The front end declares no \<open>data\<close> field.
\<close>

record Result =
  success :: bool
  result :: "jsstring option"
  visualization :: "jsstring option"
  error :: "jsstring option"
  query :: jsstring

type_synonym QueryResponse = Result

section \<open>components/ResultDisplay.tsx\<close>

text \<open>
  What a card shows, in document order. \<open>VisLength\<close> and \<open>VisStart\<close> are the two
  diagnostic lines above the image (the length of the string and its first 100 code
  units); \<open>InvalidFormatNotice\<close> is the yellow box holding the fixed notice and the raw
  string.
\<close>

datatype node =
    CardTitle jsstring
  | AnswerText jsstring
  | VisLength nat
  | VisStart jsstring
  | Img jsstring
  | InvalidFormatNotice jsstring
  | ErrorText jsstring

definition png_prefix :: jsstring where
  "png_prefix = js ''data:image/png;base64,''"

text \<open>The default of \<open>result.error || '...'\<close>: the ten code units of the Japanese literal.\<close>

definition default_error_message :: jsstring where
  "default_error_message =
     [12456, 12521, 12540, 12364, 30330, 29983, 12375, 12414, 12375, 12383]"

text \<open>The body of the \<open>results.map\<close> callback of the component in src/unnamed/part_001.\<close>

definition renderCard :: "Result \<Rightarrow> node list" where
  "renderCard r =
     CardTitle (query r) #
     (if success r then
        (if truthy (result r) then [AnswerText (the (result r))] else []) @
        (if truthy (visualization r) then
           (let v = the (visualization r) in
              [VisLength (length v), VisStart (substring0 v 100),
               (if startsWith v png_prefix then Img v else InvalidFormatNotice v)])
         else [])
      else [ErrorText (or_default (error r) default_error_message)])"

text \<open>The component returns \<open>null\<close> for an empty list, and one card per result otherwise.\<close>

definition ResultDisplay :: "Result list \<Rightarrow> node list list option" where
  "ResultDisplay rs = (if length rs = 0 then None else Some (map renderCard rs))"

text \<open>
  The variant of the same component in src/unnamed/part_000: no diagnostic lines and no
  test of the prefix; a non-empty visualization of a successful result is always the
  source of an image.
\<close>

definition renderCard_part000 :: "Result \<Rightarrow> node list" where
  "renderCard_part000 r =
     CardTitle (query r) #
     (if success r then
        (if truthy (result r) then [AnswerText (the (result r))] else []) @
        (if truthy (visualization r) then [Img (the (visualization r))] else [])
      else [ErrorText (or_default (error r) default_error_message)])"

definition ResultDisplay_part000 :: "Result list \<Rightarrow> node list list option" where
  "ResultDisplay_part000 rs =
     (if length rs = 0 then None else Some (map renderCard_part000 rs))"

section \<open>hooks/useApi.ts\<close>

text \<open>
  A value that is thrown and caught: an \<open>Error\<close> object with its message, or anything
  else. An awaited promise either resolves with a value or rejects with a thrown value.
\<close>

datatype thrown = ErrorObj jsstring | NonError

datatype 'a settled = Resolves 'a | Rejects thrown

text \<open>
  A parsed JSON body as JavaScript holds it, as far as \<open>x.detail\<close>, \<open>x || d\<close> and
  \<open>new Error(x)\<close> look at it. A number stands by the string that \<open>Number::toString\<close>
  gives for it (\<open>0\<close> for both zeros). An object stands by its own properties in the
  order they were parsed; of a repeated key the last binding counts. \<open>VUndefined\<close> is
  what reading a missing property gives.
\<close>

datatype jsvalue =
    VUndefined
  | VNull
  | VBool bool
  | VNumber jsstring
  | VString jsstring
  | VArray "jsvalue list"
  | VObject "(jsstring \<times> jsvalue) list"

text \<open>The values that count as true in \<open>x || d\<close>; arrays and objects always do.\<close>

fun js_truthy :: "jsvalue \<Rightarrow> bool" where
  "js_truthy VUndefined = False"
| "js_truthy VNull = False"
| "js_truthy (VBool b) = b"
| "js_truthy (VNumber r) = (r \<noteq> js ''0'')"
| "js_truthy (VString s) = (s \<noteq> [])"
| "js_truthy (VArray xs) = True"
| "js_truthy (VObject kvs) = True"

text \<open>
  The conversion that \<open>new Error(x)\<close> applies to its argument, \<open>None\<close> where it throws a
  TypeError. A string is itself. An array is the join of its elements with commas, an
  element \<open>null\<close> giving the empty string. A parsed object is \<open>[object Object]\<close>, unless
  it has an own property \<open>toString\<close>: that property is no function, \<open>valueOf\<close> gives no
  primitive, and the conversion throws.
\<close>

fun ToString :: "jsvalue \<Rightarrow> jsstring option" and join :: "jsvalue list \<Rightarrow> jsstring option" where
  "ToString VUndefined = Some (js ''undefined'')"
| "ToString VNull = Some (js ''null'')"
| "ToString (VBool b) = Some (if b then js ''true'' else js ''false'')"
| "ToString (VNumber r) = Some r"
| "ToString (VString s) = Some s"
| "ToString (VArray xs) = join xs"
| "ToString (VObject kvs) =
     (if js ''toString'' \<in> set (map fst kvs) then None else Some (js ''[object Object]''))"
| "join [] = Some []"
| "join (x # xs) =
     (case (if x = VNull \<or> x = VUndefined then Some [] else ToString x) of
        None \<Rightarrow> None
      | Some s \<Rightarrow>
          (case join xs of
             None \<Rightarrow> None
           | Some t \<Rightarrow> Some (if xs = [] then s else s @ js '','' @ t)))"

text \<open>
  \<open>errorData.detail\<close>: reading the property of \<open>null\<close> throws a TypeError (\<open>None\<close>); an
  object gives its own property or \<open>undefined\<close>; any other value gives \<open>undefined\<close>.
\<close>

fun detail_of :: "jsvalue \<Rightarrow> jsvalue option" where
  "detail_of VUndefined = None"
| "detail_of VNull = None"
| "detail_of (VObject kvs) =
     Some (case map_of (rev kvs) (js ''detail'') of Some d \<Rightarrow> d | None \<Rightarrow> VUndefined)"
| "detail_of v = Some VUndefined"

text \<open>
  What the network and the server do to one request, as far as the hook observes it,
  provided \<open>fetch\<close> and \<open>json()\<close> settle:
  \<^item> \<open>FetchRejects\<close>: \<open>fetch\<close> rejects, or something is thrown before there is a response;
  \<^item> \<open>NotOk\<close>: the response is not ok and \<open>json()\<close> rejects, or resolves to an object
    whose \<open>detail\<close> is a string (\<open>Some\<close>) or absent (\<open>None\<close>);
  \<^item> \<open>NotOkBody v m\<close>: the response is not ok and \<open>json()\<close> resolves to the value \<open>v\<close>,
    whatever it is; \<open>m\<close> is the message of the TypeError that the engine throws when
    reading or converting the detail throws;
  \<^item> \<open>Ok\<close>: the response is ok and \<open>json()\<close> rejects, or resolves to data that is not
    \<open>null\<close>, taken at the type the hook declares for it;
  \<^item> \<open>OkNull\<close>: the response is ok and \<open>json()\<close> resolves to \<open>null\<close>.
\<close>

datatype 'a fetch_result =
    FetchRejects thrown
  | NotOk "jsstring option settled"
  | Ok "'a settled"
  | NotOkBody jsvalue jsstring
  | OkNull

text \<open>The two state variables of the hook.\<close>

record api_state =
  isLoading :: bool
  error_state :: "jsstring option"

text \<open>
  The \<open>try\<close> block: the value it returns (\<open>Inr\<close>, with \<open>None\<close> for \<open>null\<close>) or the value
  it throws (\<open>Inl\<close>). The argument \<open>fallback\<close> is \<open>'Upload failed'\<close> or \<open>'Query failed'\<close>.
  On a response that is not ok it throws \<open>new Error(errorData.detail || fallback)\<close>,
  whose message is the conversion of that argument to a string.
\<close>

fun try_block :: "jsstring \<Rightarrow> 'a fetch_result \<Rightarrow> thrown + 'a option" where
  "try_block fallback (FetchRejects t) = Inl t"
| "try_block fallback (NotOk (Rejects t)) = Inl t"
| "try_block fallback (NotOk (Resolves detail)) = Inl (ErrorObj (or_default detail fallback))"
| "try_block fallback (Ok (Rejects t)) = Inl t"
| "try_block fallback (Ok (Resolves data)) = Inr (Some data)"
| "try_block fallback (NotOkBody v m) =
     Inl (ErrorObj
       (case detail_of v of
          None \<Rightarrow> m
        | Some d \<Rightarrow>
            if js_truthy d then (case ToString d of Some text \<Rightarrow> text | None \<Rightarrow> m)
            else fallback))"
| "try_block fallback OkNull = Inr None"

text \<open>\<open>err instanceof Error ? err.message : 'An error occurred'\<close>\<close>

fun catch_message :: "thrown \<Rightarrow> jsstring" where
  "catch_message (ErrorObj m) = m"
| "catch_message NonError = js ''An error occurred''"

text \<open>
  The common shape of \<open>uploadCsv\<close> and \<open>queryCsv\<close>. \<open>api_begin\<close> is the two setters that
  run before the \<open>await\<close>; \<open>api_settle\<close> is what runs once the request has settled: the
  rest of the \<open>try\<close> block, the \<open>catch\<close> clause and the \<open>finally\<close> clause, acting on the
  state of that moment.
\<close>

definition api_begin :: "api_state \<Rightarrow> api_state" where
  "api_begin st = (st\<lparr>isLoading := True\<rparr>)\<lparr>error_state := None\<rparr>"

definition api_settle ::
  "jsstring \<Rightarrow> 'a fetch_result \<Rightarrow> api_state \<Rightarrow> 'a option \<times> api_state" where
  "api_settle fallback outcome st =
     (let (ret, st1) =
            (case try_block fallback outcome of
               Inr data \<Rightarrow> (data, st)
             | Inl err \<Rightarrow> (None, st\<lparr>error_state := Some (catch_message err)\<rparr>))
      in (ret, st1\<lparr>isLoading := False\<rparr>))"

definition api_call :: "jsstring \<Rightarrow> 'a fetch_result \<Rightarrow> api_state \<Rightarrow> 'a option \<times> api_state" where
  "api_call fallback outcome st = api_settle fallback outcome (api_begin st)"

text \<open>
  A file as the browser hands it over. The content is whatever the server reads; the
  front end looks at the name, the size in bytes and the MIME type only.
\<close>

record File =
  file_name :: jsstring
  file_size :: nat
  file_type :: jsstring

text \<open>
  \<open>uploadCsv\<close> posts the file to \<open>/upload\<close> and \<open>queryCsv\<close> posts session id and query to
  \<open>/query\<close>; the first argument is what \<open>fetch\<close> does with that request.
\<close>

definition uploadCsv ::
  "(File \<Rightarrow> UploadResponse fetch_result) \<Rightarrow> File \<Rightarrow> api_state \<Rightarrow>
   UploadResponse option \<times> api_state" where
  "uploadCsv fetch file st = api_call (js ''Upload failed'') (fetch file) st"

definition queryCsv ::
  "(jsstring \<Rightarrow> jsstring \<Rightarrow> QueryResponse fetch_result) \<Rightarrow> jsstring \<Rightarrow> jsstring \<Rightarrow>
   api_state \<Rightarrow> QueryResponse option \<times> api_state" where
  "queryCsv fetch sessionId q st = api_call (js ''Query failed'') (fetch sessionId q) st"

section \<open>app/page.tsx\<close>

text \<open>
  The state of the page: its own two state variables and the state of the hook.
  \<open>handleUpload\<close> sets the session and the results to values that do not depend on the
  state, so it is given as one step from the state in which the upload settles.
\<close>

record Home_state =
  session :: "SessionInfo option"
  results :: "Result list"
  api :: api_state

definition Home_handleUpload ::
  "(File \<Rightarrow> UploadResponse fetch_result) \<Rightarrow> File \<Rightarrow> Home_state \<Rightarrow> Home_state" where
  "Home_handleUpload fetch file h =
     (let (response, a) = uploadCsv fetch file (api h); h1 = h\<lparr>api := a\<rparr>
      in case response of
           Some r \<Rightarrow> h1\<lparr>session := Some r, results := []\<rparr>
         | None \<Rightarrow> h1)"

text \<open>
  \<open>handleQuery\<close> suspends inside \<open>queryCsv\<close> at the \<open>await\<close>. The argument \<open>during\<close> is
  what other handlers do to the page while the request is in flight. After the request
  has settled, the setters of the hook act on the state of that moment, and the new
  list of results is the response put before the \<open>results\<close> that the handler closed over
  when it started.
\<close>

definition Home_handleQuery ::
  "(jsstring \<Rightarrow> jsstring \<Rightarrow> QueryResponse fetch_result) \<Rightarrow> jsstring \<Rightarrow>
   (Home_state \<Rightarrow> Home_state) \<Rightarrow> Home_state \<Rightarrow> Home_state" where
  "Home_handleQuery fetch q during h =
     (case session h of
        None \<Rightarrow> h
      | Some s \<Rightarrow>
          (let h1 = during (h\<lparr>api := api_begin (api h)\<rparr>);
               (response, a) = api_settle (js ''Query failed'') (fetch (session_id s) q) (api h1);
               h2 = h1\<lparr>api := a\<rparr>
           in case response of
                Some r \<Rightarrow> h2\<lparr>results := r # results h\<rparr>
              | None \<Rightarrow> h2))"

text \<open>The button that asks for a new file.\<close>

definition Home_reset :: "Home_state \<Rightarrow> Home_state" where
  "Home_reset h = h\<lparr>session := None, results := []\<rparr>"

section \<open>components/FileUpload.tsx\<close>

text \<open>
  The component keeps the selected file. \<open>handleDrop\<close> takes the first dropped file when
  its type is \<open>text/csv\<close> or its name ends in \<open>.csv\<close>; \<open>handleChange\<close> takes the first
  file of the input; \<open>handleUpload\<close> passes the selected file to \<open>onUpload\<close>. None of them
  reads the size of the file.
\<close>

definition endsWith :: "jsstring \<Rightarrow> jsstring \<Rightarrow> bool" where
  "endsWith s p = (length p \<le> length s \<and> drop (length s - length p) s = p)"

definition handleDrop :: "File list \<Rightarrow> File option \<Rightarrow> File option" where
  "handleDrop files file =
     (case files of
        [] \<Rightarrow> file
      | droppedFile # _ \<Rightarrow>
          if file_type droppedFile = js ''text/csv'' \<or> endsWith (file_name droppedFile) (js ''.csv'')
          then Some droppedFile else file)"

definition handleChange :: "File list \<Rightarrow> File option \<Rightarrow> File option" where
  "handleChange files file = (case files of [] \<Rightarrow> file | f # _ \<Rightarrow> Some f)"

definition FileUpload_handleUpload :: "(File \<Rightarrow> 'p \<Rightarrow> 'p) \<Rightarrow> File option \<Rightarrow> 'p \<Rightarrow> 'p" where
  "FileUpload_handleUpload onUpload file p = (case file of Some f \<Rightarrow> onUpload f p | None \<Rightarrow> p)"

text \<open>
  The limit the deployment configures for the server (\<open>MAX_FILE_SIZE=10485760\<close> in
  docker-compose.yml): 10 MB. The front end prints it in a hint and never compares a
  file with it.
\<close>

definition MAX_FILE_SIZE :: nat where
  "MAX_FILE_SIZE = 10485760"

section \<open>components/QueryInterface.tsx\<close>

text \<open>
  The component keeps the text of the input. \<open>onQuery\<close> is the callback of the parent:
  it changes the parent's state and either resolves (\<open>True\<close>) or rejects. \<open>handleSubmit\<close>
  awaits it and clears the input afterwards; when the callback rejects, the statement
  after the \<open>await\<close> does not run.
\<close>

definition handleSubmit ::
  "(jsstring \<Rightarrow> 'p \<Rightarrow> 'p \<times> bool) \<Rightarrow> bool \<Rightarrow> jsstring \<times> 'p \<Rightarrow> jsstring \<times> 'p" where
  "handleSubmit onQuery loading = (\<lambda>(q, p).
     if trim q \<noteq> [] \<and> \<not> loading then
       (let (p1, resolved) = onQuery q p in (if resolved then [] else q, p1))
     else (q, p))"

text \<open>
  The two ways to submit. The button is disabled when the trimmed text is empty or a
  request is in flight, and a disabled button submits nothing; the Enter key without
  Shift calls \<open>handleSubmit\<close>, any other key does not.
\<close>

datatype submit_event = ClickSubmit | KeyDown jsstring bool

definition button_disabled :: "bool \<Rightarrow> jsstring \<Rightarrow> bool" where
  "button_disabled loading q = (trim q = [] \<or> loading)"

fun QueryInterface_event ::
  "(jsstring \<Rightarrow> 'p \<Rightarrow> 'p \<times> bool) \<Rightarrow> bool \<Rightarrow> submit_event \<Rightarrow> jsstring \<times> 'p \<Rightarrow> jsstring \<times> 'p" where
  "QueryInterface_event onQuery loading ClickSubmit s =
     (if button_disabled loading (fst s) then s else handleSubmit onQuery loading s)"
| "QueryInterface_event onQuery loading (KeyDown key shiftKey) s =
     (if key = js ''Enter'' \<and> \<not> shiftKey then handleSubmit onQuery loading s else s)"

text \<open>A callback that records the queries it is called with, and resolves.\<close>

definition recording :: "jsstring \<Rightarrow> jsstring list \<Rightarrow> jsstring list \<times> bool" where
  "recording q calls = (calls @ [q], True)"

section \<open>Concrete inputs\<close>

text \<open>
  Three query results: a failed one that carries an image string, a successful one whose
  visualization is the empty string, and a successful one with a PNG data URL.
\<close>

definition failed_with_image :: Result where
  "failed_with_image =
     \<lparr>success = False, result = None, visualization = Some (png_prefix @ js ''AAAA''),
      error = None, query = js ''q''\<rparr>"

definition empty_visualization :: Result where
  "empty_visualization =
     \<lparr>success = True, result = Some (js ''42''), visualization = Some [],
      error = None, query = js ''q''\<rparr>"

definition png_result :: Result where
  "png_result =
     \<lparr>success = True, result = Some (js ''42''), visualization = Some (png_prefix @ js ''AAAA''),
      error = None, query = js ''q''\<rparr>"

text \<open>The hook at rest, two files, an upload response, and a state of the page.\<close>

definition idle :: api_state where
  "idle = \<lparr>isLoading = False, error_state = None\<rparr>"

definition a_file :: File where
  "a_file = \<lparr>file_name = js ''data.csv'', file_size = 20, file_type = js ''text/csv''\<rparr>"

definition big_file :: File where
  "big_file = \<lparr>file_name = js ''big.csv'', file_size = 10485761, file_type = js ''text/csv''\<rparr>"

definition an_upload :: UploadResponse where
  "an_upload = \<lparr>session_id = js ''s1'', filename = js ''data.csv'',
     columns = [js ''month'', js ''sales''], rows = 3, columns_count = 2\<rparr>"

definition old_page :: Home_state where
  "old_page = \<lparr>session = Some (an_upload\<lparr>session_id := js ''s0''\<rparr>),
     results = [png_result], api = idle\<rparr>"

text \<open>
  The body of a validation error as the server's framework sends it with status 422,
  and a message of a TypeError.
\<close>

definition validation_error_body :: jsvalue where
  "validation_error_body =
     VObject [(js ''detail'',
       VArray [VObject [(js ''type'', VString (js ''missing'')),
                        (js ''loc'', VArray [VString (js ''body''), VString (js ''file'')]),
                        (js ''msg'', VString (js ''Field required''))]])]"

definition a_TypeError_message :: jsstring where
  "a_TypeError_message = js ''Cannot read properties of null''"

section \<open>The Session Registry\<close>

text \<open>
  Modelled from the spec: the Session and the Session Registry of sections 3 and 4.2;
  the back end that implements them is not among the sources. A session holds its
  dataset, the original filename, the creation time and the time of the last access;
  the registry maps identifiers to sessions. Time is counted in seconds. The registry
  is modelled for one caller at a time, so the count of runs in flight that defers an
  eviction is always zero and is left out.
\<close>

record 'd Session =
  dataset :: 'd
  original_filename :: jsstring
  created_at :: nat
  last_access :: nat

type_synonym 'd registry = "jsstring \<Rightarrow> 'd Session option"

datatype registry_error = SessionNotFound

text \<open>Modelled from the spec: the fixed idle duration of 30 minutes.\<close>

definition TTL :: nat where
  "TTL = 1800"

text \<open>
  Modelled from the spec: a session is due for eviction when
  \<open>now - last_access > TTL\<close>.
\<close>

definition expired :: "nat \<Rightarrow> 'd Session \<Rightarrow> bool" where
  "expired now s = (last_access s + TTL < now)"

text \<open>Modelled from the spec: the periodic sweep of the registry.\<close>

definition sweep :: "nat \<Rightarrow> 'd registry \<Rightarrow> 'd registry" where
  "sweep now reg =
     (\<lambda>k. case reg k of None \<Rightarrow> None | Some s \<Rightarrow> if expired now s then None else Some s)"

text \<open>
  Modelled from the spec: \<open>create(dataset, filename)\<close> stores the session under a new
  identifier (handed in by the generator of identifiers) with both times set to now.
\<close>

definition registry_create ::
  "nat \<Rightarrow> jsstring \<Rightarrow> 'd \<Rightarrow> jsstring \<Rightarrow> 'd registry \<Rightarrow> 'd registry" where
  "registry_create now sid ds fname reg =
     reg(sid \<mapsto> \<lparr>dataset = ds, original_filename = fname, created_at = now, last_access = now\<rparr>)"

text \<open>
  Modelled from the spec: \<open>get(sessionId)\<close> with the lazy check on access. An unknown
  identifier fails; a session that is due is evicted and the lookup fails; otherwise
  the lookup succeeds and refreshes the time of the last access.
\<close>

definition registry_get ::
  "nat \<Rightarrow> jsstring \<Rightarrow> 'd registry \<Rightarrow> (registry_error + 'd Session) \<times> 'd registry" where
  "registry_get now sid reg =
     (case reg sid of
        None \<Rightarrow> (Inl SessionNotFound, reg)
      | Some s \<Rightarrow>
          if expired now s then (Inl SessionNotFound, reg(sid := None))
          else (Inr (s\<lparr>last_access := now\<rparr>), reg(sid \<mapsto> s\<lparr>last_access := now\<rparr>)))"

text \<open>Modelled from the spec: \<open>delete(sessionId)\<close>.\<close>

definition registry_delete ::
  "jsstring \<Rightarrow> 'd registry \<Rightarrow> (registry_error + unit) \<times> 'd registry" where
  "registry_delete sid reg =
     (case reg sid of
        None \<Rightarrow> (Inl SessionNotFound, reg)
      | Some s \<Rightarrow> (Inr (), reg(sid := None)))"

section \<open>The Orchestration Loop\<close>

text \<open>
  Modelled from the spec: the data of section 3 and the state machine of section 4.4;
  the agent that implements them is not among the sources. The clock of the wall-clock
  timeout of section 5 is not part of the model: that the limit has passed is reported
  with the answer of the reasoning service.
\<close>

datatype OrchestrationError = TurnLimitExceeded | UpstreamUnavailable | Timeout

datatype ToolError = ColumnNotFound | TypeMismatch | InvalidExpression | InvalidToolArguments

record ToolCall =
  tool_name :: jsstring
  arguments :: "(jsstring \<times> jsstring) list"

datatype role = User | Assistant | Tool

datatype content = Text jsstring | ToolFailure ToolError

type_synonym ConversationTurn = "role \<times> content"

text \<open>
  Modelled from the spec: one answer of the reasoning service. It returns zero or more
  tool calls plus optionally a final answer, or the call itself fails, the failure
  carrying the internal detail of the exception; or the wall-clock limit of the query
  (section 5) passes while the run waits for the answer.
\<close>

datatype plan = Plan "ToolCall list" "jsstring option" | ServiceError jsstring | Overdue

text \<open>
  Modelled from the spec: the reasoning service is a black box. Its answer may depend on
  the conversation so far and on how many round-trips the run has made.
\<close>

type_synonym planner = "nat \<Rightarrow> ConversationTurn list \<Rightarrow> plan"

text \<open>
  Modelled from the spec: the Tool Catalog, applied to the dataset of the session,
  validates and executes a call and returns its output or a tool error.
\<close>

type_synonym catalog = "ToolCall \<Rightarrow> ToolError + jsstring"

record loop_state =
  conversation :: "ConversationTurn list"
  round_trips :: nat
  chart :: "jsstring option"
  upstream_detail :: "jsstring option"

datatype ending = Answering jsstring | Failed OrchestrationError

text \<open>
  Modelled from the spec: Acting. Each call is executed in order and its result, or its
  error, is appended as a \<open>tool\<close> turn; a tool error does not abort the run. The output
  of a \<open>create_visualization\<close> call that succeeds is kept, the last one winning.
\<close>

definition record_tool :: "ToolCall \<Rightarrow> ToolError + jsstring \<Rightarrow> loop_state \<Rightarrow> loop_state" where
  "record_tool c res st =
     (case res of
        Inl e \<Rightarrow> st\<lparr>conversation := conversation st @ [(Tool, ToolFailure e)]\<rparr>
      | Inr out \<Rightarrow>
          st\<lparr>conversation := conversation st @ [(Tool, Text out)],
             chart := (if tool_name c = js ''create_visualization'' then Some out else chart st)\<rparr>)"

fun acting :: "catalog \<Rightarrow> ToolCall list \<Rightarrow> loop_state \<Rightarrow> loop_state" where
  "acting exec [] st = st"
| "acting exec (c # cs) st = acting exec cs (record_tool c (exec c) st)"

text \<open>
  Modelled from the spec: what Planning decides from the answer of the service. A final
  answer with no tool calls ends the run in Answering; a failure of the service ends it
  in Failed with UpstreamUnavailable; the wall-clock limit ends it in Failed with
  Timeout; anything else asks for a round of Acting (an answer with neither tool calls
  nor a final answer, on which the spec is silent, is a round with nothing to execute).
\<close>

datatype decision = Finish ending loop_state | Act "ToolCall list"

definition decide :: "plan \<Rightarrow> loop_state \<Rightarrow> decision" where
  "decide p st =
     (case p of
        ServiceError detail \<Rightarrow>
          Finish (Failed UpstreamUnavailable) (st\<lparr>upstream_detail := Some detail\<rparr>)
      | Overdue \<Rightarrow> Finish (Failed Timeout) st
      | Plan calls answer \<Rightarrow>
          (case (calls, answer) of
             ([], Some a) \<Rightarrow>
               Finish (Answering a) (st\<lparr>conversation := conversation st @ [(Assistant, Text a)]\<rparr>)
           | _ \<Rightarrow> Act calls))"

text \<open>
  Modelled from the spec: the loop. The first argument after the catalog is the number
  of round-trips still allowed. With none left, a further request for Acting exceeds
  the turn limit and the run ends in Failed with TurnLimitExceeded.
\<close>

fun planning :: "planner \<Rightarrow> catalog \<Rightarrow> nat \<Rightarrow> loop_state \<Rightarrow> ending \<times> loop_state" where
  "planning service exec 0 st =
     (case decide (service (round_trips st) (conversation st)) st of
        Finish e st1 \<Rightarrow> (e, st1)
      | Act calls \<Rightarrow> (Failed TurnLimitExceeded, st))"
| "planning service exec (Suc left) st =
     (case decide (service (round_trips st) (conversation st)) st of
        Finish e st1 \<Rightarrow> (e, st1)
      | Act calls \<Rightarrow>
          planning service exec left
            ((acting exec calls st)\<lparr>round_trips := Suc (round_trips st)\<rparr>))"

text \<open>
  Modelled from the spec: one orchestration run with the configured turn limit; the
  conversation is seeded with the user's query.
\<close>

definition orchestrate ::
  "planner \<Rightarrow> catalog \<Rightarrow> nat \<Rightarrow> jsstring \<Rightarrow> ending \<times> loop_state" where
  "orchestrate service exec limit q =
     planning service exec limit
       \<lparr>conversation = [(User, Text q)], round_trips = 0, chart = None, upstream_detail = None\<rparr>"

text \<open>A registry holding one session, created at second 1000.\<close>

definition one_session :: "unit registry" where
  "one_session = registry_create 1000 (js ''s1'') () (js ''data.csv'') (\<lambda>k. None)"

text \<open>A catalog that rejects every call, and a reasoning service whose call fails.\<close>

definition no_tools :: catalog where
  "no_tools c = Inl InvalidToolArguments"

definition failing_service :: planner where
  "failing_service k c = ServiceError (js ''connection refused'')"

section \<open>JSON bodies and their reading by the front end\<close>

text \<open>
  A parsed JSON document. Numbers are the integers the two endpoints send (counts of
  rows and columns).
\<close>

datatype json =
    JNull
  | JBool bool
  | JNum int
  | JStr jsstring
  | JArr "json list"
  | JObj "(jsstring \<times> json) list"

fun field :: "jsstring \<Rightarrow> json \<Rightarrow> json option" where
  "field k (JObj kvs) = map_of kvs k"
| "field k b = None"

fun keys :: "json \<Rightarrow> jsstring list" where
  "keys (JObj kvs) = map fst kvs"
| "keys b = []"

text \<open>
  A body of the two endpoints as JavaScript holds it after \<open>json()\<close>. The numbers the
  endpoints send are counts, whose \<open>Number::toString\<close> is their decimal notation.
\<close>

fun digits :: "nat \<Rightarrow> jsstring" where
  "digits n = (if n < 10 then [48 + n] else digits (n div 10) @ [48 + n mod 10])"

declare digits.simps [simp del]

definition Number_toString :: "int \<Rightarrow> jsstring" where
  "Number_toString n = (if n < 0 then 45 # digits (nat (- n)) else digits (nat n))"

primrec jsvalue_of :: "json \<Rightarrow> jsvalue" where
  "jsvalue_of JNull = VNull"
| "jsvalue_of (JBool b) = VBool b"
| "jsvalue_of (JNum n) = VNumber (Number_toString n)"
| "jsvalue_of (JStr s) = VString s"
| "jsvalue_of (JArr xs) = VArray (map jsvalue_of xs)"
| "jsvalue_of (JObj kvs) = VObject (map (map_prod id jsvalue_of) kvs)"

text \<open>
  The front end does not check a body; it takes \<open>response.json()\<close> at the declared
  interface. The function \<open>as_QueryResponse\<close> says which documents inhabit
  \<open>QueryResponse\<close> and which value of the interface each is, field by field: a required
  field must be present with its declared type; an optional string field may be absent
  or \<open>null\<close> (both read as absent) or a string; further fields, such as \<open>data\<close>, are
  not read.
\<close>

fun optional_string :: "json option \<Rightarrow> jsstring option option" where
  "optional_string None = Some None"
| "optional_string (Some JNull) = Some None"
| "optional_string (Some (JStr s)) = Some (Some s)"
| "optional_string (Some b) = None"

definition as_QueryResponse :: "json \<Rightarrow> QueryResponse option" where
  "as_QueryResponse b =
     (case (field (js ''success'') b, field (js ''query'') b,
            optional_string (field (js ''result'') b),
            optional_string (field (js ''visualization'') b),
            optional_string (field (js ''error'') b)) of
        (Some (JBool s), Some (JStr q), Some res, Some vis, Some err) \<Rightarrow>
          Some \<lparr>success = s, result = res, visualization = vis, error = err, query = q\<rparr>
      | _ \<Rightarrow> None)"

text \<open>
  An HTTP response as \<open>fetch\<close> resolves it: \<open>response.ok\<close> is true for a status from 200
  to 299.
\<close>

record http_response =
  status :: nat
  body :: json

definition response_ok :: "http_response \<Rightarrow> bool" where
  "response_ok r = (200 \<le> status r \<and> status r \<le> 299)"

text \<open>
  What the hook observes of a response whose body is JSON. A response that is not ok is
  read with \<open>json()\<close> for its \<open>detail\<close>; \<open>m\<close> is the message of the TypeError that reading
  \<open>detail\<close> of \<open>null\<close> throws. The body of a response that is ok is returned as it is, at
  the type the hook declares for it, which nothing checks at run time: \<open>typed\<close> is that
  body seen at this type.
\<close>

definition browser_fetch :: "http_response \<Rightarrow> 'a \<Rightarrow> jsstring \<Rightarrow> 'a fetch_result" where
  "browser_fetch r typed m =
     (if response_ok r then Ok (Resolves typed) else NotOkBody (jsvalue_of (body r)) m)"

section \<open>The Response Assembler and the two endpoints\<close>

text \<open>
  Modelled from the spec: the Response Assembler of section 4.5, producing the body of
  section 6; the back end that implements it is not among the sources. On Answering
  the answer text is taken verbatim and the chart of the last successful
  \<open>create_visualization\<close> call is attached. On Failed the body carries \<open>success\<close> false
  and the message that the table \<open>message\<close> holds for the kind of error; the table of
  user-visible messages is a parameter, and the internal detail of the run is not read.
  The spec does not say when the raw tabular result \<open>data\<close> is attached; the model never
  attaches it, which the optional field allows.
\<close>

definition assemble ::
  "(OrchestrationError \<Rightarrow> jsstring) \<Rightarrow> jsstring \<Rightarrow> ending \<times> loop_state \<Rightarrow> json" where
  "assemble message q out =
     (case fst out of
        Answering a \<Rightarrow>
          JObj ([(js ''success'', JBool True), (js ''result'', JStr a)] @
                (case chart (snd out) of
                   None \<Rightarrow> []
                 | Some c \<Rightarrow> [(js ''visualization'', JStr c)]) @
                [(js ''query'', JStr q)])
      | Failed e \<Rightarrow>
          JObj [(js ''success'', JBool False), (js ''error'', JStr (message e)),
                (js ''query'', JStr q)])"

text \<open>
  Modelled from the spec: \<open>POST /query\<close> of section 6. The session is looked up; an
  unknown (or evicted) session is answered with 404 and SessionNotFound; otherwise the
  run is made against the session's dataset and its outcome, failed or not, is answered
  with 200 and the assembled body.
\<close>

definition post_query ::
  "planner \<Rightarrow> ('d \<Rightarrow> catalog) \<Rightarrow> nat \<Rightarrow> (OrchestrationError \<Rightarrow> jsstring) \<Rightarrow>
   nat \<Rightarrow> jsstring \<Rightarrow> jsstring \<Rightarrow> 'd registry \<Rightarrow> http_response \<times> 'd registry" where
  "post_query service tools limit message now sid q reg =
     (case registry_get now sid reg of
        (Inl SessionNotFound, reg1) \<Rightarrow>
          (\<lparr>status = 404, body = JObj [(js ''detail'', JStr (js ''SessionNotFound''))]\<rparr>, reg1)
      | (Inr s, reg1) \<Rightarrow>
          (\<lparr>status = 200,
            body = assemble message q (orchestrate service (tools (dataset s)) limit q)\<rparr>,
           reg1))"

text \<open>
  Modelled from the spec: the Dataset of section 3 and the Dataset Store of section 4.1,
  as far as the upload needs them. The size of the payload is checked first; the
  parsing of the delimited text is a parameter.
\<close>

record Dataset =
  column_names :: "jsstring list"
  row_values :: "jsstring list list"

datatype ParseError = MalformedInput | PayloadTooLarge | EncodingError

definition Dataset_Store_parse ::
  "(File \<Rightarrow> ParseError + Dataset) \<Rightarrow> File \<Rightarrow> ParseError + Dataset" where
  "Dataset_Store_parse parse_text f =
     (if MAX_FILE_SIZE < file_size f then Inl PayloadTooLarge else parse_text f)"

fun ParseError_name :: "ParseError \<Rightarrow> jsstring" where
  "ParseError_name MalformedInput = js ''MalformedInput''"
| "ParseError_name PayloadTooLarge = js ''PayloadTooLarge''"
| "ParseError_name EncodingError = js ''EncodingError''"

text \<open>
  Modelled from the spec: \<open>POST /upload\<close> of section 6. A payload that does not parse is
  answered with 400 and the registry is left as it is; otherwise the session is created
  and described in the body.
\<close>

definition post_upload ::
  "(File \<Rightarrow> ParseError + Dataset) \<Rightarrow> nat \<Rightarrow> jsstring \<Rightarrow> File \<Rightarrow> Dataset registry \<Rightarrow>
   http_response \<times> Dataset registry" where
  "post_upload parse_text now sid f reg =
     (case Dataset_Store_parse parse_text f of
        Inl e \<Rightarrow> (\<lparr>status = 400, body = JObj [(js ''detail'', JStr (ParseError_name e))]\<rparr>, reg)
      | Inr ds \<Rightarrow>
          (\<lparr>status = 200,
            body = JObj [(js ''session_id'', JStr sid),
                         (js ''filename'', JStr (file_name f)),
                         (js ''columns'', JArr (map JStr (column_names ds))),
                         (js ''rows'', JNum (int (length (row_values ds)))),
                         (js ''columns_count'', JNum (int (length (column_names ds))))]\<rparr>,
           registry_create now sid ds (file_name f) reg))"

text \<open>
  A file of exactly 10 MB, a dataset of one column and one row, and an empty registry
  of datasets.
\<close>

definition full_file :: File where
  "full_file = \<lparr>file_name = js ''full.csv'', file_size = 10485760, file_type = js ''text/csv''\<rparr>"

definition one_cell :: Dataset where
  "one_cell = \<lparr>column_names = [js ''n''], row_values = [[js ''1'']]\<rparr>"

definition no_sessions :: "Dataset registry" where
  "no_sessions = (\<lambda>sid. None)"

text \<open>
  A table of user-visible messages, a failed result whose error field holds the text of
  an exception, and a failed result without an error field that carries an answer and
  an image all the same.
\<close>

fun plain_message :: "OrchestrationError \<Rightarrow> jsstring" where
  "plain_message TurnLimitExceeded = js ''The question needed too many steps.''"
| "plain_message UpstreamUnavailable = js ''The answering service is unavailable.''"
| "plain_message Timeout = js ''The question took too long.''"



section \<open>Properties of ResultDisplay\<close>

lemma truthy_Some_iff: "truthy x \<longleftrightarrow> (\<exists>s. x = Some s \<and> s \<noteq> [])"
  by (cases x) auto

lemma png_prefix_length: "length png_prefix = 22"
  by (simp add: png_prefix_def js_def)

lemma ResultDisplay_cards:
  "rs \<noteq> [] \<Longrightarrow> ResultDisplay rs = Some (map renderCard rs)"
  by (simp add: ResultDisplay_def)

lemma ResultDisplay_part000_cards:
  "rs \<noteq> [] \<Longrightarrow> ResultDisplay_part000 rs = Some (map renderCard_part000 rs)"
  by (simp add: ResultDisplay_part000_def)

lemma renderCard_shown:
  "success r \<Longrightarrow> visualization r = Some v \<Longrightarrow> v \<noteq> [] \<Longrightarrow>
   renderCard r =
     CardTitle (query r) #
     (if truthy (result r) then [AnswerText (the (result r))] else []) @
     [VisLength (length v), VisStart (substring0 v 100),
      (if startsWith v png_prefix then Img v else InvalidFormatNotice v)]"
  by (simp add: renderCard_def)

lemma renderCard_not_shown:
  "\<not> success r \<or> \<not> truthy (visualization r) \<Longrightarrow>
   Img u \<notin> set (renderCard r) \<and> InvalidFormatNotice u \<notin> set (renderCard r)"
  by (auto simp add: renderCard_def)

lemma renderCard_part000_not_shown:
  "\<not> success r \<or> \<not> truthy (visualization r) \<Longrightarrow> Img u \<notin> set (renderCard_part000 r)"
  by (auto simp add: renderCard_part000_def)

lemma renderCard_part000_shown:
  "success r \<Longrightarrow> visualization r = Some v \<Longrightarrow> v \<noteq> [] \<Longrightarrow>
   Img v \<in> set (renderCard_part000 r)"
  by (simp add: renderCard_part000_def)

text \<open>
  Claim C2, as the component has it. For the result at position \<open>i\<close> whose visualization
  field is present with value \<open>v\<close>: when the result is successful and \<open>v\<close> is not empty,
  the card of src/unnamed/part_001 holds an image with source \<open>v\<close> exactly when \<open>v\<close>
  starts with \<open>data:image/png;base64,\<close> and holds the invalid-format notice exactly when
  it does not, while the card of the variant in src/unnamed/part_000 holds the image
  whatever the prefix; when the result is not successful or \<open>v\<close> is empty, the card
  holds neither an image nor the notice, in either variant.
\<close>

theorem ResultDisplay_image_iff_prefix:
  assumes i: "i < length rs" and v: "visualization (rs ! i) = Some v"
  shows "\<exists>cards cards0.
     ResultDisplay rs = Some cards \<and> length cards = length rs \<and>
     ResultDisplay_part000 rs = Some cards0 \<and> length cards0 = length rs \<and>
     (if success (rs ! i) \<and> v \<noteq> [] then
        (Img v \<in> set (cards ! i) \<longleftrightarrow> startsWith v png_prefix) \<and>
        (InvalidFormatNotice v \<in> set (cards ! i) \<longleftrightarrow> \<not> startsWith v png_prefix) \<and>
        Img v \<in> set (cards0 ! i)
      else
        (\<forall>u. Img u \<notin> set (cards ! i) \<and> InvalidFormatNotice u \<notin> set (cards ! i) \<and>
             Img u \<notin> set (cards0 ! i)))"
proof -
  from i have ne: "rs \<noteq> []" by auto
  let ?r = "rs ! i"
  have c: "(map renderCard rs) ! i = renderCard ?r"
    and c0: "(map renderCard_part000 rs) ! i = renderCard_part000 ?r"
    using i by simp_all
  have body: "(if success ?r \<and> v \<noteq> [] then
        (Img v \<in> set (renderCard ?r) \<longleftrightarrow> startsWith v png_prefix) \<and>
        (InvalidFormatNotice v \<in> set (renderCard ?r) \<longleftrightarrow> \<not> startsWith v png_prefix) \<and>
        Img v \<in> set (renderCard_part000 ?r)
      else
        (\<forall>u. Img u \<notin> set (renderCard ?r) \<and> InvalidFormatNotice u \<notin> set (renderCard ?r) \<and>
             Img u \<notin> set (renderCard_part000 ?r)))"
  proof (cases "success ?r \<and> v \<noteq> []")
    case True
    then have s: "success ?r" and n: "v \<noteq> []" by simp_all
    show ?thesis
      using True renderCard_part000_shown [OF s v n]
      by (simp add: renderCard_shown [OF s v n])
  next
    case False
    then have "\<not> success ?r \<or> \<not> truthy (visualization ?r)"
      using v by auto
    then have nv: "\<forall>u. Img u \<notin> set (renderCard ?r) \<and> InvalidFormatNotice u \<notin> set (renderCard ?r) \<and>
             Img u \<notin> set (renderCard_part000 ?r)"
      using renderCard_not_shown renderCard_part000_not_shown by blast
    show ?thesis by (simp only: False if_False) (rule nv)
  qed
  show ?thesis
    using body c c0 ne
    by (simp add: ResultDisplay_cards ResultDisplay_part000_cards)
qed

lemma startsWith_append: "startsWith (p @ s) p"
  by (simp add: startsWith_def)

text \<open>
  The claim as stated fails at a failed result whose visualization starts with the
  prefix (the card shows the error text and no image) and at a successful result whose
  visualization is the empty string (the card shows neither image nor notice).
\<close>

theorem ResultDisplay_image_counterexample:
  "visualization failed_with_image = Some (png_prefix @ js ''AAAA'') \<and>
   startsWith (png_prefix @ js ''AAAA'') png_prefix \<and>
   ResultDisplay [failed_with_image] =
     Some [[CardTitle (js ''q''), ErrorText default_error_message]] \<and>
   visualization empty_visualization = Some [] \<and>
   \<not> startsWith [] png_prefix \<and>
   ResultDisplay [empty_visualization] = Some [[CardTitle (js ''q''), AnswerText (js ''42'')]]"
  by (simp add: failed_with_image_def empty_visualization_def startsWith_append
      ResultDisplay_def renderCard_def)
     (simp add: startsWith_def png_prefix_def js_def)

theorem ResultDisplay_image_iff_prefix_witness:
  "ResultDisplay [png_result] =
     Some [[CardTitle (js ''q''), AnswerText (js ''42''), VisLength 26,
            VisStart (png_prefix @ js ''AAAA''), Img (png_prefix @ js ''AAAA'')]] \<and>
   (\<exists>cards cards0.
     ResultDisplay [png_result] = Some cards \<and> length cards = length [png_result] \<and>
     ResultDisplay_part000 [png_result] = Some cards0 \<and> length cards0 = length [png_result] \<and>
     Img (png_prefix @ js ''AAAA'') \<in> set (cards ! 0) \<and>
     InvalidFormatNotice (png_prefix @ js ''AAAA'') \<notin> set (cards ! 0) \<and>
     Img (png_prefix @ js ''AAAA'') \<in> set (cards0 ! 0))"
proof -
  have v: "visualization ([png_result] ! 0) = Some (png_prefix @ js ''AAAA'')"
    by (simp add: png_result_def)
  have s: "success ([png_result] ! 0) \<and> png_prefix @ js ''AAAA'' \<noteq> []"
    by (simp add: png_result_def js_def)
  have e: "ResultDisplay [png_result] =
     Some [[CardTitle (js ''q''), AnswerText (js ''42''), VisLength 26,
            VisStart (png_prefix @ js ''AAAA''), Img (png_prefix @ js ''AAAA'')]]"
    by (simp add: png_result_def ResultDisplay_def renderCard_def startsWith_append
        substring0_def)
       (simp add: png_prefix_def js_def)
  from ResultDisplay_image_iff_prefix [of 0 "[png_result]", OF _ v] s e
  show ?thesis by (simp add: startsWith_append)
qed

section \<open>Properties of QueryInterface\<close>

lemma trim_whitespace: "\<forall>c \<in> set q. isWhiteSpace c \<Longrightarrow> trim q = []"
proof -
  assume "\<forall>c \<in> set q. isWhiteSpace c"
  then have d: "dropWhile isWhiteSpace q = []" by simp
  show ?thesis unfolding trim_def d by simp
qed

lemma handleSubmit_blocked:
  "trim q = [] \<or> loading \<Longrightarrow> handleSubmit onQuery loading (q, p) = (q, p)"
  by (auto simp add: handleSubmit_def)

lemma handleSubmit_runs:
  "trim q \<noteq> [] \<Longrightarrow> \<not> loading \<Longrightarrow>
   handleSubmit onQuery loading (q, p) =
     (if snd (onQuery q p) then [] else q, fst (onQuery q p))"
  by (simp add: handleSubmit_def split: prod.split)

lemma QueryInterface_event_blocked:
  "trim q = [] \<or> loading \<Longrightarrow> QueryInterface_event onQuery loading ev (q, p) = (q, p)"
  by (cases ev) (auto simp add: handleSubmit_blocked)

lemma QueryInterface_event_submits:
  "trim q \<noteq> [] \<Longrightarrow> \<not> loading \<Longrightarrow> ev = ClickSubmit \<or> ev = KeyDown (js ''Enter'') False \<Longrightarrow>
   QueryInterface_event onQuery loading ev (q, p) = handleSubmit onQuery loading (q, p)"
  by (auto simp add: button_disabled_def)


text \<open>
  Claim C10. Whatever the callback and however the form is submitted (the button, or
  any key), nothing happens when the trimmed text is empty or a request is in flight:
  the text and the parent's state stay as they are, so the callback has not run. A
  text of whitespace only trims to the empty string. With the recording callback, a
  change of the record implies a non-empty trimmed text and no request in flight. When
  the guard holds, a click on the button or Enter without Shift calls the callback once
  with the text as typed, and once the callback has resolved the text is empty.
\<close>

theorem QueryInterface_submit_guard:
  "(trim q = [] \<or> loading \<longrightarrow> QueryInterface_event onQuery loading ev (q, p) = (q, p)) \<and>
   ((\<forall>c \<in> set q. isWhiteSpace c) \<longrightarrow>
      QueryInterface_event onQuery loading ev (q, p) = (q, p) \<and>
      QueryInterface_event recording loading ev (q, calls) = (q, calls)) \<and>
   (snd (QueryInterface_event recording loading ev (q, calls)) \<noteq> calls \<longrightarrow>
      trim q \<noteq> [] \<and> \<not> loading) \<and>
   (trim q \<noteq> [] \<and> \<not> loading \<and> (ev = ClickSubmit \<or> ev = KeyDown (js ''Enter'') False) \<longrightarrow>
      QueryInterface_event recording loading ev (q, calls) = ([], calls @ [q]) \<and>
      (onQuery q p = (p1, True) \<longrightarrow>
         QueryInterface_event onQuery loading ev (q, p) = ([], p1)))"
proof (intro conjI impI)
  assume "trim q = [] \<or> loading"
  then show "QueryInterface_event onQuery loading ev (q, p) = (q, p)"
    by (rule QueryInterface_event_blocked)
next
  assume "\<forall>c \<in> set q. isWhiteSpace c"
  then have t: "trim q = [] \<or> loading" by (simp add: trim_whitespace)
  then show "QueryInterface_event onQuery loading ev (q, p) = (q, p)"
    by (rule QueryInterface_event_blocked)
  from t show "QueryInterface_event recording loading ev (q, calls) = (q, calls)"
    by (rule QueryInterface_event_blocked)
next
  assume moved: "snd (QueryInterface_event recording loading ev (q, calls)) \<noteq> calls"
  have "\<not> (trim q = [] \<or> loading)"
  proof
    assume "trim q = [] \<or> loading"
    then have "QueryInterface_event recording loading ev (q, calls) = (q, calls)"
      by (rule QueryInterface_event_blocked)
    with moved show False by simp
  qed
  then show "trim q \<noteq> []" and "\<not> loading" by simp_all
next
  assume g: "trim q \<noteq> [] \<and> \<not> loading \<and> (ev = ClickSubmit \<or> ev = KeyDown (js ''Enter'') False)"
  then have e: "\<And>f s. QueryInterface_event f loading ev (q, s) = handleSubmit f loading (q, s)"
    by (simp add: QueryInterface_event_submits)
  from g have tq: "trim q \<noteq> []" and nl: "\<not> loading" by simp_all
  show "QueryInterface_event recording loading ev (q, calls) = ([], calls @ [q])"
    unfolding e handleSubmit_runs [OF tq nl] by (simp add: recording_def)
  assume "onQuery q p = (p1, True)"
  then show "QueryInterface_event onQuery loading ev (q, p) = ([], p1)"
    unfolding e handleSubmit_runs [OF tq nl] by simp
qed

lemma trim_example: "trim (js '' total? '') = js ''total?''"
  by (simp add: trim_def js_def isWhiteSpace_def)


theorem QueryInterface_submit_guard_witness:
  "trim [32, 9, 12288, 10] = [] \<and>
   QueryInterface_event recording False (KeyDown (js ''Enter'') False) ([32, 9, 12288, 10], []) =
     ([32, 9, 12288, 10], []) \<and>
   trim (js '' total? '') = js ''total?'' \<and>
   QueryInterface_event recording False ClickSubmit (js '' total? '', []) =
     ([], [js '' total? ''])"
proof -
  have w: "\<forall>c \<in> set [32, 9, 12288, 10]. isWhiteSpace c"
    by (simp add: isWhiteSpace_def)
  have n: "trim (js '' total? '') \<noteq> []"
    unfolding trim_example by (simp add: js_def)
  have a: "QueryInterface_event recording False (KeyDown (js ''Enter'') False)
             ([32, 9, 12288, 10], []) = ([32, 9, 12288, 10], [])"
    using w QueryInterface_submit_guard
      [where q = "[32, 9, 12288, 10]" and loading = False and onQuery = recording
         and ev = "KeyDown (js ''Enter'') False" and p = "[]" and calls = "[]"]
    by blast
  have b: "QueryInterface_event recording False ClickSubmit (js '' total? '', []) =
             ([], [] @ [js '' total? ''])"
    using n QueryInterface_submit_guard
      [where q = "js '' total? ''" and loading = False and onQuery = recording
         and ev = ClickSubmit and p = "[]" and calls = "[]"]
    by blast
  from trim_whitespace [OF w] a b trim_example show ?thesis by simp
qed

section \<open>Properties of useApi\<close>

lemma api_call_isLoading: "isLoading (snd (api_call fallback outcome st)) = False"
  by (simp add: api_call_def api_begin_def api_settle_def Let_def split: sum.split prod.split)

lemma api_call_returns:
  "fst (api_call fallback outcome st) = Some d \<longleftrightarrow> outcome = Ok (Resolves d)"
  by (cases "(fallback, outcome)" rule: try_block.cases) (auto simp add: api_call_def api_begin_def api_settle_def)

lemma api_call_Ok:
  "api_call fallback (Ok (Resolves d)) st = (Some d, \<lparr>isLoading = False, error_state = None\<rparr>)"
  by (simp add: api_call_def api_begin_def api_settle_def)

lemma api_call_detail:
  "api_call fallback (NotOk (Resolves detail)) st =
     (None, \<lparr>isLoading = False, error_state = Some (or_default detail fallback)\<rparr>)"
  by (simp add: api_call_def api_begin_def api_settle_def)

lemma api_call_thrown:
  "outcome = FetchRejects t \<or> outcome = NotOk (Rejects t) \<or> outcome = Ok (Rejects t) \<Longrightarrow>
   api_call fallback outcome st =
     (None, \<lparr>isLoading = False, error_state = Some (catch_message t)\<rparr>)"
  by (auto simp add: api_call_def api_begin_def api_settle_def)

lemma api_call_OkNull:
  "api_call fallback OkNull st = (None, \<lparr>isLoading = False, error_state = None\<rparr>)"
  by (simp add: api_call_def api_begin_def api_settle_def)

lemma api_call_body:
  "api_call fallback (NotOkBody v m) st =
     (None, \<lparr>isLoading = False,
             error_state = Some (case detail_of v of
                None \<Rightarrow> m
              | Some d \<Rightarrow>
                  if js_truthy d then (case ToString d of Some text \<Rightarrow> text | None \<Rightarrow> m)
                  else fallback)\<rparr>)"
  by (simp add: api_call_def api_begin_def api_settle_def)

lemma or_default_cases:
  "(detail = None \<or> detail = Some [] \<longrightarrow> or_default detail fallback = fallback) \<and>
   (detail = Some s \<and> s \<noteq> [] \<longrightarrow> or_default detail fallback = s)"
  by (cases detail) auto

lemma api_call_outcome:
  "isLoading (snd (api_call fallback outcome st)) = False \<and>
   (fst (api_call fallback outcome st) = Some d \<longleftrightarrow> outcome = Ok (Resolves d)) \<and>
   (outcome = Ok (Resolves d) \<or> outcome = OkNull \<longrightarrow>
      error_state (snd (api_call fallback outcome st)) = None) \<and>
   (outcome = OkNull \<longrightarrow> fst (api_call fallback outcome st) = None) \<and>
   (outcome = NotOk (Resolves None) \<or> outcome = NotOk (Resolves (Some [])) \<longrightarrow>
      api_call fallback outcome st = (None, \<lparr>isLoading = False, error_state = Some fallback\<rparr>)) \<and>
   (outcome = NotOk (Resolves (Some s)) \<and> s \<noteq> [] \<longrightarrow>
      api_call fallback outcome st = (None, \<lparr>isLoading = False, error_state = Some s\<rparr>)) \<and>
   (outcome = NotOkBody v m \<longrightarrow>
      api_call fallback outcome st =
        (None, \<lparr>isLoading = False,
                error_state = Some (case detail_of v of
                   None \<Rightarrow> m
                 | Some dv \<Rightarrow>
                     if js_truthy dv then (case ToString dv of Some text \<Rightarrow> text | None \<Rightarrow> m)
                     else fallback)\<rparr>)) \<and>
   (outcome = FetchRejects (ErrorObj e) \<or> outcome = NotOk (Rejects (ErrorObj e)) \<or>
    outcome = Ok (Rejects (ErrorObj e)) \<longrightarrow>
      api_call fallback outcome st = (None, \<lparr>isLoading = False, error_state = Some e\<rparr>)) \<and>
   (outcome = FetchRejects NonError \<or> outcome = NotOk (Rejects NonError) \<or>
    outcome = Ok (Rejects NonError) \<longrightarrow>
      api_call fallback outcome st =
        (None, \<lparr>isLoading = False, error_state = Some (js ''An error occurred'')\<rparr>))"
proof (intro conjI impI)
  show "isLoading (snd (api_call fallback outcome st)) = False" by (rule api_call_isLoading)
  show "(fst (api_call fallback outcome st) = Some d) = (outcome = Ok (Resolves d))"
    by (rule api_call_returns)
next
  assume "outcome = Ok (Resolves d) \<or> outcome = OkNull"
  then show "error_state (snd (api_call fallback outcome st)) = None"
    by (auto simp add: api_call_Ok api_call_OkNull)
next
  assume "outcome = OkNull"
  then show "fst (api_call fallback outcome st) = None" by (simp add: api_call_OkNull)
next
  assume "outcome = NotOk (Resolves None) \<or> outcome = NotOk (Resolves (Some []))"
  then show "api_call fallback outcome st =
      (None, \<lparr>isLoading = False, error_state = Some fallback\<rparr>)"
    by (auto simp add: api_call_detail)
next
  assume "outcome = NotOk (Resolves (Some s)) \<and> s \<noteq> []"
  then show "api_call fallback outcome st = (None, \<lparr>isLoading = False, error_state = Some s\<rparr>)"
    by (simp add: api_call_detail)
next
  assume "outcome = NotOkBody v m"
  then show "api_call fallback outcome st =
        (None, \<lparr>isLoading = False,
                error_state = Some (case detail_of v of
                   None \<Rightarrow> m
                 | Some dv \<Rightarrow>
                     if js_truthy dv then (case ToString dv of Some text \<Rightarrow> text | None \<Rightarrow> m)
                     else fallback)\<rparr>)"
    by (simp add: api_call_body)
next
  assume "outcome = FetchRejects (ErrorObj e) \<or> outcome = NotOk (Rejects (ErrorObj e)) \<or>
    outcome = Ok (Rejects (ErrorObj e))"
  from api_call_thrown [OF this, of fallback st]
  show "api_call fallback outcome st = (None, \<lparr>isLoading = False, error_state = Some e\<rparr>)"
    by simp
next
  assume "outcome = FetchRejects NonError \<or> outcome = NotOk (Rejects NonError) \<or>
    outcome = Ok (Rejects NonError)"
  from api_call_thrown [OF this, of fallback st]
  show "api_call fallback outcome st =
        (None, \<lparr>isLoading = False, error_state = Some (js ''An error occurred'')\<rparr>)"
    by simp
qed


text \<open>
  Claim C8, as the hook has it. Whatever \<open>fetch\<close> and \<open>json()\<close> settle to, \<open>uploadCsv\<close>
  and \<open>queryCsv\<close> end with \<open>isLoading\<close> false. They return the parsed data exactly when
  the response is ok and its body parses to data; then, and when the body of an ok
  response is \<open>null\<close> (which is returned as it is), the error state is \<open>null\<close>.
  Otherwise they return \<open>null\<close>, and the error state is: the \<open>detail\<close> of a response that
  is not ok, converted to a string as \<open>new Error\<close> converts it, when the detail counts as
  true; \<open>'Upload failed'\<close> (\<open>'Query failed'\<close>) when the detail is absent or counts as
  false; the message of the \<open>Error\<close> thrown by \<open>fetch\<close>, by \<open>json()\<close> or by reading or
  converting the detail; or \<open>'An error occurred'\<close> when the thrown value is no \<open>Error\<close>.
\<close>

theorem useApi_call_settles:
  fixes fetch :: "File \<Rightarrow> UploadResponse fetch_result"
    and fetchq :: "jsstring \<Rightarrow> jsstring \<Rightarrow> QueryResponse fetch_result"
  shows
  "isLoading (snd (uploadCsv fetch f st)) = False \<and>
   (fst (uploadCsv fetch f st) = Some d \<longleftrightarrow> fetch f = Ok (Resolves d)) \<and>
   (fetch f = Ok (Resolves d) \<or> fetch f = OkNull \<longrightarrow> error_state (snd (uploadCsv fetch f st)) = None) \<and>
   (fetch f = OkNull \<longrightarrow> fst (uploadCsv fetch f st) = None) \<and>
   (fetch f = NotOk (Resolves None) \<or> fetch f = NotOk (Resolves (Some [])) \<longrightarrow>
      uploadCsv fetch f st = (None, \<lparr>isLoading = False, error_state = Some (js ''Upload failed'')\<rparr>)) \<and>
   (fetch f = NotOk (Resolves (Some s)) \<and> s \<noteq> [] \<longrightarrow>
      uploadCsv fetch f st = (None, \<lparr>isLoading = False, error_state = Some s\<rparr>)) \<and>
   (fetch f = NotOkBody v m \<longrightarrow>
      uploadCsv fetch f st =
        (None, \<lparr>isLoading = False,
                error_state = Some (case detail_of v of
                   None \<Rightarrow> m
                 | Some dv \<Rightarrow>
                     if js_truthy dv then (case ToString dv of Some text \<Rightarrow> text | None \<Rightarrow> m)
                     else js ''Upload failed'')\<rparr>)) \<and>
   (fetch f = FetchRejects (ErrorObj e) \<or> fetch f = NotOk (Rejects (ErrorObj e)) \<or>
    fetch f = Ok (Rejects (ErrorObj e)) \<longrightarrow>
      uploadCsv fetch f st = (None, \<lparr>isLoading = False, error_state = Some e\<rparr>)) \<and>
   (fetch f = FetchRejects NonError \<or> fetch f = NotOk (Rejects NonError) \<or>
    fetch f = Ok (Rejects NonError) \<longrightarrow>
      uploadCsv fetch f st =
        (None, \<lparr>isLoading = False, error_state = Some (js ''An error occurred'')\<rparr>)) \<and>
   isLoading (snd (queryCsv fetchq sid q st)) = False \<and>
   (fst (queryCsv fetchq sid q st) = Some r \<longleftrightarrow> fetchq sid q = Ok (Resolves r)) \<and>
   (fetchq sid q = Ok (Resolves r) \<or> fetchq sid q = OkNull \<longrightarrow> error_state (snd (queryCsv fetchq sid q st)) = None) \<and>
   (fetchq sid q = OkNull \<longrightarrow> fst (queryCsv fetchq sid q st) = None) \<and>
   (fetchq sid q = NotOk (Resolves None) \<or> fetchq sid q = NotOk (Resolves (Some [])) \<longrightarrow>
      queryCsv fetchq sid q st = (None, \<lparr>isLoading = False, error_state = Some (js ''Query failed'')\<rparr>)) \<and>
   (fetchq sid q = NotOk (Resolves (Some s)) \<and> s \<noteq> [] \<longrightarrow>
      queryCsv fetchq sid q st = (None, \<lparr>isLoading = False, error_state = Some s\<rparr>)) \<and>
   (fetchq sid q = NotOkBody v m \<longrightarrow>
      queryCsv fetchq sid q st =
        (None, \<lparr>isLoading = False,
                error_state = Some (case detail_of v of
                   None \<Rightarrow> m
                 | Some dv \<Rightarrow>
                     if js_truthy dv then (case ToString dv of Some text \<Rightarrow> text | None \<Rightarrow> m)
                     else js ''Query failed'')\<rparr>)) \<and>
   (fetchq sid q = FetchRejects (ErrorObj e) \<or> fetchq sid q = NotOk (Rejects (ErrorObj e)) \<or>
    fetchq sid q = Ok (Rejects (ErrorObj e)) \<longrightarrow>
      queryCsv fetchq sid q st = (None, \<lparr>isLoading = False, error_state = Some e\<rparr>)) \<and>
   (fetchq sid q = FetchRejects NonError \<or> fetchq sid q = NotOk (Rejects NonError) \<or>
    fetchq sid q = Ok (Rejects NonError) \<longrightarrow>
      queryCsv fetchq sid q st =
        (None, \<lparr>isLoading = False, error_state = Some (js ''An error occurred'')\<rparr>))"
  unfolding uploadCsv_def queryCsv_def
  using api_call_outcome [of "js ''Upload failed''" "fetch f" st d s v m e]
        api_call_outcome [of "js ''Query failed''" "fetchq sid q" st r s v m e]
  by (intro conjI) (elim conjE, assumption)+


text \<open>
  The claim as stated fails when \<open>fetch\<close> itself rejects: there is no response whose
  \<open>detail\<close> could be read, and the error state is the message of the thrown \<open>Error\<close>,
  which is none of the fixed messages of the hook.
\<close>

theorem useApi_error_counterexample:
  "uploadCsv (\<lambda>f. FetchRejects (ErrorObj (js ''Failed to fetch''))) a_file idle =
     (None, \<lparr>isLoading = False, error_state = Some (js ''Failed to fetch'')\<rparr>) \<and>
   js ''Failed to fetch'' \<noteq> js ''Upload failed'' \<and>
   js ''Failed to fetch'' \<noteq> js ''An error occurred''"
  by (simp add: uploadCsv_def api_call_def api_begin_def api_settle_def) (simp add: js_def)

text \<open>
  The outcomes one by one: a validation error of the server, whose detail is a list of
  objects; a body \<open>null\<close>; a detail that is an empty list, which counts as true and
  converts to the empty string; a detail \<open>0\<close>; a string detail; data; an ok response
  with body \<open>null\<close>; a missing detail; a thrown value that is no \<open>Error\<close>.
\<close>

theorem useApi_call_settles_witness:
  "uploadCsv (\<lambda>f. NotOkBody validation_error_body a_TypeError_message) a_file idle =
     (None, \<lparr>isLoading = False, error_state = Some (js ''[object Object]'')\<rparr>) \<and>
   uploadCsv (\<lambda>f. NotOkBody VNull a_TypeError_message) a_file idle =
     (None, \<lparr>isLoading = False, error_state = Some (js ''Cannot read properties of null'')\<rparr>) \<and>
   uploadCsv (\<lambda>f. NotOkBody (VObject [(js ''detail'', VArray [])]) a_TypeError_message) a_file idle =
     (None, \<lparr>isLoading = False, error_state = Some []\<rparr>) \<and>
   uploadCsv (\<lambda>f. NotOkBody (VObject [(js ''detail'', VNumber (js ''0''))]) a_TypeError_message)
     a_file idle =
     (None, \<lparr>isLoading = False, error_state = Some (js ''Upload failed'')\<rparr>) \<and>
   uploadCsv (\<lambda>f. NotOk (Resolves (Some (js ''File too large'')))) a_file idle =
     (None, \<lparr>isLoading = False, error_state = Some (js ''File too large'')\<rparr>) \<and>
   uploadCsv (\<lambda>f. Ok (Resolves an_upload)) a_file idle =
     (Some an_upload, \<lparr>isLoading = False, error_state = None\<rparr>) \<and>
   uploadCsv (\<lambda>f. OkNull) a_file idle = (None, \<lparr>isLoading = False, error_state = None\<rparr>) \<and>
   queryCsv (\<lambda>s q. NotOk (Resolves None)) (js ''s1'') (js ''total?'') idle =
     (None, \<lparr>isLoading = False, error_state = Some (js ''Query failed'')\<rparr>) \<and>
   queryCsv (\<lambda>s q. Ok (Rejects NonError)) (js ''s1'') (js ''total?'') idle =
     (None, \<lparr>isLoading = False, error_state = Some (js ''An error occurred'')\<rparr>)"
proof -
  note T = useApi_call_settles
    [where fetch = "\<lambda>f. NotOkBody validation_error_body a_TypeError_message" and f = a_file
       and st = idle and v = validation_error_body and m = a_TypeError_message,
     THEN conjunct2, THEN conjunct2, THEN conjunct2, THEN conjunct2, THEN conjunct2,
     THEN conjunct2, THEN conjunct1, THEN mp, OF refl]
  have a: "uploadCsv (\<lambda>f. NotOkBody validation_error_body a_TypeError_message) a_file idle =
     (None, \<lparr>isLoading = False, error_state = Some (js ''[object Object]'')\<rparr>)"
    unfolding T by (simp add: validation_error_body_def) (simp add: js_def)
  note U = useApi_call_settles
    [where fetch = "\<lambda>f. NotOk (Resolves (Some (js ''File too large'')))" and f = a_file
       and st = idle and s = "js ''File too large''",
     THEN conjunct2, THEN conjunct2, THEN conjunct2, THEN conjunct2, THEN conjunct2,
     THEN conjunct1, THEN mp]
  have n: "js ''File too large'' \<noteq> []" by (simp add: js_def)
  have b: "uploadCsv (\<lambda>f. NotOk (Resolves (Some (js ''File too large'')))) a_file idle =
     (None, \<lparr>isLoading = False, error_state = Some (js ''File too large'')\<rparr>)"
    by (rule U) (simp add: n)
  have c: "uploadCsv (\<lambda>f. NotOkBody VNull a_TypeError_message) a_file idle =
     (None, \<lparr>isLoading = False, error_state = Some (js ''Cannot read properties of null'')\<rparr>)"
    by (simp add: uploadCsv_def api_call_body a_TypeError_message_def)
  have d: "uploadCsv (\<lambda>f. NotOkBody (VObject [(js ''detail'', VArray [])]) a_TypeError_message)
             a_file idle = (None, \<lparr>isLoading = False, error_state = Some []\<rparr>)"
    by (simp add: uploadCsv_def api_call_body)
  have e: "uploadCsv (\<lambda>f. NotOkBody (VObject [(js ''detail'', VNumber (js ''0''))])
             a_TypeError_message) a_file idle =
     (None, \<lparr>isLoading = False, error_state = Some (js ''Upload failed'')\<rparr>)"
    by (simp add: uploadCsv_def api_call_body)
  have g: "uploadCsv (\<lambda>f. Ok (Resolves an_upload)) a_file idle =
     (Some an_upload, \<lparr>isLoading = False, error_state = None\<rparr>)"
    by (simp add: uploadCsv_def api_call_Ok)
  have h: "uploadCsv (\<lambda>f. OkNull) a_file idle = (None, \<lparr>isLoading = False, error_state = None\<rparr>)"
    by (simp add: uploadCsv_def api_call_OkNull)
  have i: "queryCsv (\<lambda>s q. NotOk (Resolves None)) (js ''s1'') (js ''total?'') idle =
     (None, \<lparr>isLoading = False, error_state = Some (js ''Query failed'')\<rparr>)"
    by (simp add: queryCsv_def api_call_detail)
  have j: "queryCsv (\<lambda>s q. Ok (Rejects NonError)) (js ''s1'') (js ''total?'') idle =
     (None, \<lparr>isLoading = False, error_state = Some (js ''An error occurred'')\<rparr>)"
    by (simp add: queryCsv_def api_call_def api_begin_def api_settle_def)
  from a c d e b g h i j show ?thesis by (intro conjI)
qed

lemma NotOkBody_string_detail:
  "try_block fallback (NotOkBody (VObject [(js ''detail'', VString s)]) m) =
   try_block fallback (NotOk (Resolves (Some s)))"
  by simp

lemma NotOkBody_no_detail:
  "try_block fallback (NotOkBody (VObject []) m) = try_block fallback (NotOk (Resolves None))"
  by simp

section \<open>Properties of the page\<close>

lemma Home_handleUpload_Some:
  "uploadCsv fetch f (api h) = (Some r, a) \<Longrightarrow>
   Home_handleUpload fetch f h = h\<lparr>api := a, session := Some r, results := []\<rparr>"
  by (simp add: Home_handleUpload_def)

lemma Home_handleUpload_None:
  "uploadCsv fetch f (api h) = (None, a) \<Longrightarrow>
   Home_handleUpload fetch f h = h\<lparr>api := a\<rparr>"
  by (simp add: Home_handleUpload_def)

text \<open>
  Claim C9. When \<open>uploadCsv\<close> returns a response, the page's session becomes that
  response and the list of results becomes empty, so that ResultDisplay shows nothing;
  when \<open>uploadCsv\<close> returns \<open>null\<close>, the session and the list of results are what they
  were.
\<close>

theorem Home_handleUpload_frame:
  "(fst (uploadCsv fetch f (api h)) = Some r \<longrightarrow>
      session (Home_handleUpload fetch f h) = Some r \<and>
      results (Home_handleUpload fetch f h) = [] \<and>
      ResultDisplay (results (Home_handleUpload fetch f h)) = None) \<and>
   (fst (uploadCsv fetch f (api h)) = None \<longrightarrow>
      session (Home_handleUpload fetch f h) = session h \<and>
      results (Home_handleUpload fetch f h) = results h)"
proof (cases "uploadCsv fetch f (api h)")
  case (Pair ret a)
  show ?thesis
  proof (cases ret)
    case None
    with Pair have "Home_handleUpload fetch f h = h\<lparr>api := a\<rparr>"
      by (simp add: Home_handleUpload_None)
    with Pair None show ?thesis by simp
  next
    case (Some r')
    with Pair have "Home_handleUpload fetch f h =
        h\<lparr>api := a, session := Some r', results := []\<rparr>"
      by (simp add: Home_handleUpload_Some)
    with Pair Some show ?thesis by (simp add: ResultDisplay_def)
  qed
qed

theorem Home_handleUpload_frame_witness:
  "fst (uploadCsv (\<lambda>f. Ok (Resolves an_upload)) a_file (api old_page)) = Some an_upload \<and>
   session (Home_handleUpload (\<lambda>f. Ok (Resolves an_upload)) a_file old_page) = Some an_upload \<and>
   results (Home_handleUpload (\<lambda>f. Ok (Resolves an_upload)) a_file old_page) = [] \<and>
   fst (uploadCsv (\<lambda>f. NotOk (Resolves None)) a_file (api old_page)) = None \<and>
   session (Home_handleUpload (\<lambda>f. NotOk (Resolves None)) a_file old_page) = session old_page \<and>
   results (Home_handleUpload (\<lambda>f. NotOk (Resolves None)) a_file old_page) = [png_result]"
proof -
  have a: "fst (uploadCsv (\<lambda>f. Ok (Resolves an_upload)) a_file (api old_page)) = Some an_upload"
    by (simp add: uploadCsv_def api_call_Ok)
  have b: "fst (uploadCsv (\<lambda>f. NotOk (Resolves None)) a_file (api old_page)) = None"
    by (simp add: uploadCsv_def api_call_detail)
  have c: "results old_page = [png_result]" by (simp add: old_page_def)
  from a Home_handleUpload_frame
    [where fetch = "\<lambda>f. Ok (Resolves an_upload)" and f = a_file and h = old_page
       and r = an_upload]
  have ok: "session (Home_handleUpload (\<lambda>f. Ok (Resolves an_upload)) a_file old_page) = Some an_upload \<and>
   results (Home_handleUpload (\<lambda>f. Ok (Resolves an_upload)) a_file old_page) = []"
    by blast
  from b Home_handleUpload_frame
    [where fetch = "\<lambda>f. NotOk (Resolves None)" and f = a_file and h = old_page
       and r = an_upload]
  have ko: "session (Home_handleUpload (\<lambda>f. NotOk (Resolves None)) a_file old_page) = session old_page \<and>
   results (Home_handleUpload (\<lambda>f. NotOk (Resolves None)) a_file old_page) = results old_page"
    by blast
  from a b ok ko show ?thesis unfolding c by blast
qed

text \<open>
  \<open>handleQuery\<close> does nothing without a session. When nothing else touches the page
  while the request is in flight it is \<open>queryCsv\<close> followed by the update of the results.
  When the page is reset in the meantime, a response that arrives puts the results that
  the handler closed over back on the page.
\<close>

lemma Home_handleQuery_no_session:
  "session h = None \<Longrightarrow> Home_handleQuery fetch q during h = h"
  by (simp add: Home_handleQuery_def)

lemma Home_handleQuery_undisturbed:
  "session h = Some s \<Longrightarrow>
   Home_handleQuery fetch q (\<lambda>x. x) h =
     (let (response, a) = queryCsv fetch (session_id s) q (api h); h1 = h\<lparr>api := a\<rparr>
      in case response of
           Some r \<Rightarrow> h1\<lparr>results := r # results h\<rparr>
         | None \<Rightarrow> h1)"
  by (simp add: Home_handleQuery_def queryCsv_def api_call_def)

lemma Home_handleQuery_after_reset:
  "session h = Some s \<Longrightarrow> fetch (session_id s) q = Ok (Resolves r) \<Longrightarrow>
   Home_handleQuery fetch q Home_reset h =
     \<lparr>session = None, results = r # results h,
      api = \<lparr>isLoading = False, error_state = None\<rparr>\<rparr>"
  by (simp add: Home_handleQuery_def Home_reset_def api_begin_def api_settle_def)

section \<open>Properties of the upload path\<close>

lemma post_upload_too_large:
  "MAX_FILE_SIZE < file_size f \<Longrightarrow>
   post_upload parse_text now sid f reg =
     (\<lparr>status = 400, body = JObj [(js ''detail'', JStr (js ''PayloadTooLarge''))]\<rparr>, reg)"
  by (simp add: post_upload_def Dataset_Store_parse_def)

lemma PayloadTooLarge_detail:
  "detail_of (jsvalue_of (JObj [(js ''detail'', JStr (js ''PayloadTooLarge''))])) =
     Some (VString (js ''PayloadTooLarge''))"
  by (simp add: js_def)

lemma uploadCsv_too_large:
  assumes "fetch f = NotOkBody (jsvalue_of (JObj [(js ''detail'', JStr (js ''PayloadTooLarge''))])) m"
  shows "uploadCsv fetch f st =
     (None, \<lparr>isLoading = False, error_state = Some (js ''PayloadTooLarge'')\<rparr>)"
proof -
  have n: "js ''PayloadTooLarge'' \<noteq> []" by (simp add: js_def)
  show ?thesis
    unfolding uploadCsv_def assms api_call_body PayloadTooLarge_detail
    using n by simp
qed

text \<open>
  Claim C3, on the model of the endpoint and the code of the front end. For every file
  larger than 10485760 bytes, whatever the parser of the text, the time, the identifier
  and the registry: \<open>POST /upload\<close> answers with status 400, which is not ok, and the
  detail PayloadTooLarge, and leaves the registry as it was. The front end compares no
  file with the limit: \<open>handleChange\<close> selects the file and \<open>handleUpload\<close> passes it to
  \<open>onUpload\<close> like any other. The upload from the page, posted to that endpoint, ends with
  PayloadTooLarge as the error state and \<open>isLoading\<close> false, and with the session and the
  results of the page as they were: no session is stored, on either side.
\<close>

theorem oversized_upload_fails:
  assumes big: "10485760 < file_size f"
  shows "post_upload parse_text now sid f reg =
       (\<lparr>status = 400, body = JObj [(js ''detail'', JStr (js ''PayloadTooLarge''))]\<rparr>, reg) \<and>
     \<not> response_ok (fst (post_upload parse_text now sid f reg)) \<and>
     handleChange [f] sel = Some f \<and>
     FileUpload_handleUpload onUpload (Some f) p = onUpload f p \<and>
     FileUpload_handleUpload
       (Home_handleUpload
          (\<lambda>x. browser_fetch (fst (post_upload parse_text now sid x reg)) (typed x) m))
       (handleChange [f] sel) h =
     h\<lparr>api := \<lparr>isLoading = False, error_state = Some (js ''PayloadTooLarge'')\<rparr>\<rparr>"
proof (intro conjI)
  from big have b: "MAX_FILE_SIZE < file_size f" by (simp add: MAX_FILE_SIZE_def)
  show r: "post_upload parse_text now sid f reg =
       (\<lparr>status = 400, body = JObj [(js ''detail'', JStr (js ''PayloadTooLarge''))]\<rparr>, reg)"
    by (rule post_upload_too_large [OF b])
  show nok: "\<not> response_ok (fst (post_upload parse_text now sid f reg))"
    unfolding r by (simp add: response_ok_def)
  show sel: "handleChange [f] sel = Some f" by (simp add: handleChange_def)
  show "FileUpload_handleUpload onUpload (Some f) p = onUpload f p"
    by (simp add: FileUpload_handleUpload_def)
  let ?fetch = "\<lambda>x. browser_fetch (fst (post_upload parse_text now sid x reg)) (typed x) m"
  have "?fetch f = NotOkBody (jsvalue_of (JObj [(js ''detail'', JStr (js ''PayloadTooLarge''))])) m"
    using nok unfolding browser_fetch_def by (simp add: r)
  then have "uploadCsv ?fetch f (api h) =
     (None, \<lparr>isLoading = False, error_state = Some (js ''PayloadTooLarge'')\<rparr>)"
    by (rule uploadCsv_too_large)
  then have "Home_handleUpload ?fetch f h =
     h\<lparr>api := \<lparr>isLoading = False, error_state = Some (js ''PayloadTooLarge'')\<rparr>\<rparr>"
    by (rule Home_handleUpload_None)
  then show "FileUpload_handleUpload (Home_handleUpload ?fetch) (handleChange [f] sel) h =
     h\<lparr>api := \<lparr>isLoading = False, error_state = Some (js ''PayloadTooLarge'')\<rparr>\<rparr>"
    unfolding sel by (simp add: FileUpload_handleUpload_def)
qed

text \<open>
  The claim as stated fails at the steps of the upload path that the front end owns:
  a file of 10485761 bytes is accepted as the selection and handed to the callback that
  posts it.
\<close>

theorem oversized_upload_counterexample:
  "MAX_FILE_SIZE < file_size big_file \<and>
   handleChange [big_file] None = Some big_file \<and>
   FileUpload_handleUpload (\<lambda>f posted. posted @ [f]) (handleChange [big_file] None) [] = [big_file]"
  by (simp add: MAX_FILE_SIZE_def big_file_def handleChange_def FileUpload_handleUpload_def)

text \<open>
  A file of 10485761 bytes is rejected and leaves the registry empty and the page with
  the session it had; a file of 10485760 bytes is accepted and its session created.
\<close>

theorem oversized_upload_fails_witness:
  "10485760 < file_size big_file \<and>
   file_size big_file = 10485761 \<and>
   fst (post_upload (\<lambda>f. Inr one_cell) 7 (js ''s1'') big_file no_sessions) =
     \<lparr>status = 400, body = JObj [(js ''detail'', JStr (js ''PayloadTooLarge''))]\<rparr> \<and>
   snd (post_upload (\<lambda>f. Inr one_cell) 7 (js ''s1'') big_file no_sessions) (js ''s1'') = None \<and>
   FileUpload_handleUpload
     (Home_handleUpload
        (\<lambda>x. browser_fetch (fst (post_upload (\<lambda>f. Inr one_cell) 7 (js ''s1'') x no_sessions))
               an_upload (js ''Cannot read properties of null'')))
     (handleChange [big_file] None) old_page =
   old_page\<lparr>api := \<lparr>isLoading = False, error_state = Some (js ''PayloadTooLarge'')\<rparr>\<rparr> \<and>
   session (old_page\<lparr>api := \<lparr>isLoading = False, error_state = Some (js ''PayloadTooLarge'')\<rparr>\<rparr>) =
     session old_page \<and>
   status (fst (post_upload (\<lambda>f. Inr one_cell) 7 (js ''s1'') full_file no_sessions)) = 200 \<and>
   snd (post_upload (\<lambda>f. Inr one_cell) 7 (js ''s1'') full_file no_sessions) (js ''s1'') =
     Some \<lparr>dataset = one_cell, original_filename = js ''full.csv'', created_at = 7,
           last_access = 7\<rparr>"
proof -
  have b: "10485760 < file_size big_file" and b': "file_size big_file = 10485761"
    by (simp_all add: big_file_def)
  note T = oversized_upload_fails [OF b, where parse_text = "\<lambda>f. Inr one_cell" and now = 7
      and sid = "js ''s1''" and reg = no_sessions and sel = None and h = old_page
      and typed = "\<lambda>x. an_upload" and m = "js ''Cannot read properties of null''"]
  have r: "post_upload (\<lambda>f. Inr one_cell) 7 (js ''s1'') big_file no_sessions =
     (\<lparr>status = 400, body = JObj [(js ''detail'', JStr (js ''PayloadTooLarge''))]\<rparr>, no_sessions)"
    by (rule T [THEN conjunct1])
  have c1: "fst (post_upload (\<lambda>f. Inr one_cell) 7 (js ''s1'') big_file no_sessions) =
     \<lparr>status = 400, body = JObj [(js ''detail'', JStr (js ''PayloadTooLarge''))]\<rparr>"
    unfolding r by simp
  have c2: "snd (post_upload (\<lambda>f. Inr one_cell) 7 (js ''s1'') big_file no_sessions) (js ''s1'') = None"
    unfolding r by (simp add: no_sessions_def)
  note c3 = T [THEN conjunct2, THEN conjunct2, THEN conjunct2, THEN conjunct2]
  have c4: "session (old_page\<lparr>api := \<lparr>isLoading = False, error_state = Some (js ''PayloadTooLarge'')\<rparr>\<rparr>) =
     session old_page" by simp
  have ok: "post_upload (\<lambda>f. Inr one_cell) 7 (js ''s1'') full_file no_sessions =
     (\<lparr>status = 200,
       body = JObj [(js ''session_id'', JStr (js ''s1'')),
                    (js ''filename'', JStr (js ''full.csv'')),
                    (js ''columns'', JArr [JStr (js ''n'')]),
                    (js ''rows'', JNum 1),
                    (js ''columns_count'', JNum 1)]\<rparr>,
      registry_create 7 (js ''s1'') one_cell (js ''full.csv'') no_sessions)"
    by (simp add: post_upload_def Dataset_Store_parse_def MAX_FILE_SIZE_def full_file_def
        one_cell_def)
  have c5: "status (fst (post_upload (\<lambda>f. Inr one_cell) 7 (js ''s1'') full_file no_sessions)) = 200"
    unfolding ok by simp
  have c6: "snd (post_upload (\<lambda>f. Inr one_cell) 7 (js ''s1'') full_file no_sessions) (js ''s1'') =
     Some \<lparr>dataset = one_cell, original_filename = js ''full.csv'', created_at = 7,
           last_access = 7\<rparr>"
    unfolding ok by (simp add: registry_create_def)
  from b b' c1 c2 c3 c4 c5 c6 show ?thesis by (intro conjI)
qed

section \<open>Properties of the Session Registry\<close>

lemma registry_get_expired:
  "reg sid = Some s \<Longrightarrow> last_access s + TTL < now \<Longrightarrow>
   registry_get now sid reg = (Inl SessionNotFound, reg(sid := None))"
  by (simp add: registry_get_def expired_def)

lemma registry_get_live:
  "reg sid = Some s \<Longrightarrow> now \<le> last_access s + TTL \<Longrightarrow>
   registry_get now sid reg =
     (Inr (s\<lparr>last_access := now\<rparr>), reg(sid \<mapsto> s\<lparr>last_access := now\<rparr>))"
  by (simp add: registry_get_def expired_def)

text \<open>
  Claim C7. For a session the registry holds: a \<open>get\<close> at a time later than the last
  access plus the TTL fails with SessionNotFound and the session is gone; a \<open>get\<close> at a
  time up to the last access plus the TTL succeeds, returns and stores the session
  with the last access set to now, and from then on the idle time counts from now, so
  that every later \<open>get\<close> up to now plus the TTL succeeds as well.
\<close>

theorem registry_get_ttl:
  assumes known: "reg sid = Some s"
  shows "(last_access s + TTL < now \<longrightarrow>
            fst (registry_get now sid reg) = Inl SessionNotFound \<and>
            snd (registry_get now sid reg) sid = None) \<and>
         (now \<le> last_access s + TTL \<longrightarrow>
            fst (registry_get now sid reg) = Inr (s\<lparr>last_access := now\<rparr>) \<and>
            snd (registry_get now sid reg) sid = Some (s\<lparr>last_access := now\<rparr>) \<and>
            (\<forall>later. later \<le> now + TTL \<longrightarrow>
               fst (registry_get later sid (snd (registry_get now sid reg))) =
                 Inr (s\<lparr>last_access := later\<rparr>)))"
proof (intro conjI impI allI)
  assume late: "last_access s + TTL < now"
  show "fst (registry_get now sid reg) = Inl SessionNotFound"
    by (simp add: registry_get_expired [where reg = reg and sid = sid, OF known late])
  show "snd (registry_get now sid reg) sid = None"
    by (simp add: registry_get_expired [where reg = reg and sid = sid, OF known late])
next
  assume live: "now \<le> last_access s + TTL"
  note g = registry_get_live [where reg = reg and sid = sid, OF known live]
  show "fst (registry_get now sid reg) = Inr (s\<lparr>last_access := now\<rparr>)"
    by (simp add: g)
  show stored: "snd (registry_get now sid reg) sid = Some (s\<lparr>last_access := now\<rparr>)"
    by (simp add: g)
  fix later
  assume soon: "later \<le> now + TTL"
  then have "later \<le> last_access (s\<lparr>last_access := now\<rparr>) + TTL" by simp
  from registry_get_live [where reg = "snd (registry_get now sid reg)" and sid = sid, OF stored this]
  show "fst (registry_get later sid (snd (registry_get now sid reg))) =
          Inr (s\<lparr>last_access := later\<rparr>)"
    by simp
qed

theorem registry_get_ttl_witness:
  "one_session (js ''s1'') =
     Some \<lparr>dataset = (), original_filename = js ''data.csv'', created_at = 1000,
           last_access = 1000\<rparr> \<and>
   fst (registry_get 2801 (js ''s1'') one_session) = Inl SessionNotFound \<and>
   fst (registry_get 2800 (js ''s1'') one_session) =
     Inr \<lparr>dataset = (), original_filename = js ''data.csv'', created_at = 1000,
          last_access = 2800\<rparr> \<and>
   fst (registry_get 4600 (js ''s1'') (snd (registry_get 2800 (js ''s1'') one_session))) =
     Inr \<lparr>dataset = (), original_filename = js ''data.csv'', created_at = 1000,
          last_access = 4600\<rparr>"
proof -
  let ?s = "\<lparr>dataset = (), original_filename = js ''data.csv'', created_at = 1000,
           last_access = 1000::nat\<rparr>"
  have k: "one_session (js ''s1'') = Some ?s"
    by (simp add: one_session_def registry_create_def)
  have late: "last_access ?s + TTL < 2801" by (simp add: TTL_def)
  have live: "2800 \<le> last_access ?s + TTL" by (simp add: TTL_def)
  have soon: "(4600::nat) \<le> 2800 + TTL" by (simp add: TTL_def)
  note T1 = registry_get_ttl [where reg = one_session and sid = "js ''s1''" and now = 2801, OF k]
  note T2 = registry_get_ttl [where reg = one_session and sid = "js ''s1''" and now = 2800, OF k]
  have a: "fst (registry_get 2801 (js ''s1'') one_session) = Inl SessionNotFound"
    using T1 late by (elim conjE) simp
  have b: "fst (registry_get 2800 (js ''s1'') one_session) = Inr (?s\<lparr>last_access := 2800\<rparr>)"
    using T2 live by (elim conjE) simp
  have c: "fst (registry_get 4600 (js ''s1'') (snd (registry_get 2800 (js ''s1'') one_session))) =
     Inr (?s\<lparr>last_access := 4600\<rparr>)"
    using T2 live soon by (elim conjE) simp
  from k a b c show ?thesis by simp
qed

section \<open>Properties of a failed query\<close>






section \<open>Properties of the query endpoint\<close>

lemma assemble_Failed:
  "fst out = Failed e \<Longrightarrow>
   assemble message q out =
     JObj [(js ''success'', JBool False), (js ''error'', JStr (message e)), (js ''query'', JStr q)]"
  by (simp add: assemble_def)

lemma as_QueryResponse_failed_body:
  "as_QueryResponse
     (JObj [(js ''success'', JBool False), (js ''error'', JStr m), (js ''query'', JStr q)]) =
   Some \<lparr>success = False, result = None, visualization = None, error = Some m, query = q\<rparr>"
  by (simp add: as_QueryResponse_def js_def)

lemma assemble_Answering:
  "fst out = Answering a \<Longrightarrow>
   assemble message q out =
     JObj ([(js ''success'', JBool True), (js ''result'', JStr a)] @
           (case chart (snd out) of None \<Rightarrow> [] | Some c \<Rightarrow> [(js ''visualization'', JStr c)]) @
           [(js ''query'', JStr q)])"
  by (simp add: assemble_def)

lemma as_QueryResponse_answer_body:
  "as_QueryResponse
     (JObj ([(js ''success'', JBool True), (js ''result'', JStr a)] @
            (case c of None \<Rightarrow> [] | Some v \<Rightarrow> [(js ''visualization'', JStr v)]) @
            [(js ''query'', JStr q)])) =
   Some \<lparr>success = True, result = Some a, visualization = c, error = None, query = q\<rparr>"
  by (cases c) (simp_all add: as_QueryResponse_def js_def)

lemma as_QueryResponse_assemble:
  "as_QueryResponse (assemble message q out) =
     Some (case fst out of
             Answering a \<Rightarrow>
               \<lparr>success = True, result = Some a, visualization = chart (snd out), error = None,
                query = q\<rparr>
           | Failed e \<Rightarrow>
               \<lparr>success = False, result = None, visualization = None, error = Some (message e),
                query = q\<rparr>)"
proof (cases "fst out")
  case (Answering a)
  show ?thesis
    unfolding assemble_Answering [OF Answering] as_QueryResponse_answer_body
    by (simp add: Answering)
next
  case (Failed e)
  show ?thesis
    unfolding assemble_Failed [OF Failed] as_QueryResponse_failed_body
    by (simp add: Failed)
qed

lemma keys_assemble:
  "set (keys (assemble message q out)) \<subseteq>
     {js ''success'', js ''result'', js ''visualization'', js ''data'', js ''error'', js ''query''}"
  by (cases "fst out"; cases "chart (snd out)") (simp_all add: assemble_def)

lemma required_fields_assemble:
  "field (js ''success'') (assemble message q out) =
     Some (JBool (case fst out of Answering a \<Rightarrow> True | Failed e \<Rightarrow> False)) \<and>
   field (js ''query'') (assemble message q out) = Some (JStr q)"
  by (cases "fst out"; cases "chart (snd out)") (simp_all add: assemble_def js_def)

lemma post_query_not_found:
  "reg sid = None \<or> (\<exists>s. reg sid = Some s \<and> expired now s) \<Longrightarrow>
   fst (post_query service tools limit message now sid q reg) =
     \<lparr>status = 404, body = JObj [(js ''detail'', JStr (js ''SessionNotFound''))]\<rparr>"
  by (auto simp add: post_query_def registry_get_def)

lemma post_query_found:
  "reg sid = Some s \<Longrightarrow> \<not> expired now s \<Longrightarrow>
   fst (post_query service tools limit message now sid q reg) =
     \<lparr>status = 200,
      body = assemble message q (orchestrate service (tools (dataset s)) limit q)\<rparr>"
  by (simp add: post_query_def registry_get_def)


text \<open>
  Claim C6, on the model of the endpoint. A query for a session the registry does not
  hold, or holds past its TTL, is answered with status 404, which is not ok, and the
  detail SessionNotFound; \<open>queryCsv\<close> then returns \<open>null\<close> with that detail as the error
  state. A query for a live session is answered with status 200, whatever the outcome
  of the run: the keys of the body are among \<open>success\<close>, \<open>result\<close>, \<open>visualization\<close>,
  \<open>data\<close>, \<open>error\<close> and \<open>query\<close>; \<open>success\<close> is present and a boolean, \<open>query\<close> is
  present and the query string of the request; the body reads as a \<open>QueryResponse\<close>
  whose \<open>success\<close> is true exactly when the run ended in Answering, and which for a
  failed run carries \<open>success\<close> false and the error message; and \<open>queryCsv\<close> returns that
  response, failed or not, with no error state.
\<close>

theorem post_query_response:
  "(reg sid = None \<or> (\<exists>s. reg sid = Some s \<and> expired now s) \<longrightarrow>
      status (fst (post_query service tools limit message now sid q reg)) = 404 \<and>
      \<not> response_ok (fst (post_query service tools limit message now sid q reg)) \<and>
      body (fst (post_query service tools limit message now sid q reg)) =
        JObj [(js ''detail'', JStr (js ''SessionNotFound''))] \<and>
      queryCsv (\<lambda>i t. NotOk (Resolves (Some (js ''SessionNotFound'')))) sid q st =
        (None, \<lparr>isLoading = False, error_state = Some (js ''SessionNotFound'')\<rparr>)) \<and>
   (reg sid = Some s \<and> \<not> expired now s \<longrightarrow>
      status (fst (post_query service tools limit message now sid q reg)) = 200 \<and>
      response_ok (fst (post_query service tools limit message now sid q reg)) \<and>
      set (keys (body (fst (post_query service tools limit message now sid q reg)))) \<subseteq>
        {js ''success'', js ''result'', js ''visualization'', js ''data'', js ''error'',
         js ''query''} \<and>
      field (js ''query'') (body (fst (post_query service tools limit message now sid q reg))) =
        Some (JStr q) \<and>
      (\<exists>r. field (js ''success'')
               (body (fst (post_query service tools limit message now sid q reg))) =
               Some (JBool (success r)) \<and>
           as_QueryResponse (body (fst (post_query service tools limit message now sid q reg))) =
             Some r \<and>
           query r = q \<and>
           (success r \<longleftrightarrow>
              (\<exists>a. fst (orchestrate service (tools (dataset s)) limit q) = Answering a)) \<and>
           (\<forall>e. fst (orchestrate service (tools (dataset s)) limit q) = Failed e \<longrightarrow>
                \<not> success r \<and> error r = Some (message e)) \<and>
           queryCsv (\<lambda>i t. Ok (Resolves r)) sid q st =
             (Some r, \<lparr>isLoading = False, error_state = None\<rparr>)))"
proof (intro conjI impI)
  assume u: "reg sid = None \<or> (\<exists>s. reg sid = Some s \<and> expired now s)"
  note nf = post_query_not_found [where reg = reg and sid = sid and now = now and service = service
      and tools = tools and limit = limit and message = message and q = q, OF u]
  show "status (fst (post_query service tools limit message now sid q reg)) = 404"
    by (simp add: nf)
  show "\<not> response_ok (fst (post_query service tools limit message now sid q reg))"
    by (simp add: nf response_ok_def)
  show "body (fst (post_query service tools limit message now sid q reg)) =
        JObj [(js ''detail'', JStr (js ''SessionNotFound''))]"
    by (simp add: nf)
  have "js ''SessionNotFound'' \<noteq> []" by (simp add: js_def)
  then show "queryCsv (\<lambda>i t. NotOk (Resolves (Some (js ''SessionNotFound'')))) sid q st =
        (None, \<lparr>isLoading = False, error_state = Some (js ''SessionNotFound'')\<rparr>)"
    by (simp add: queryCsv_def api_call_detail)
next
  assume k: "reg sid = Some s \<and> \<not> expired now s"
  let ?run = "orchestrate service (tools (dataset s)) limit q"
  let ?r = "case fst ?run of
             Answering a \<Rightarrow>
               \<lparr>success = True, result = Some a, visualization = chart (snd ?run), error = None,
                query = q\<rparr>
           | Failed e \<Rightarrow>
               \<lparr>success = False, result = None, visualization = None, error = Some (message e),
                query = q\<rparr>"
  from k have k1: "reg sid = Some s" and k2: "\<not> expired now s" by simp_all
  have f: "fst (post_query service tools limit message now sid q reg) =
     \<lparr>status = 200, body = assemble message q ?run\<rparr>"
    by (rule post_query_found [where reg = reg and sid = sid, OF k1 k2])
  show "status (fst (post_query service tools limit message now sid q reg)) = 200"
    by (simp add: f)
  show "response_ok (fst (post_query service tools limit message now sid q reg))"
    by (simp add: f response_ok_def)
  show "set (keys (body (fst (post_query service tools limit message now sid q reg)))) \<subseteq>
        {js ''success'', js ''result'', js ''visualization'', js ''data'', js ''error'',
         js ''query''}"
    unfolding f using keys_assemble [of message q ?run] by simp
  show "field (js ''query'') (body (fst (post_query service tools limit message now sid q reg))) =
        Some (JStr q)"
    unfolding f using required_fields_assemble [of message q ?run] by simp
  have b: "body (fst (post_query service tools limit message now sid q reg)) =
             assemble message q ?run"
    by (simp add: f)
  have 1: "field (js ''success'') (assemble message q ?run) = Some (JBool (success ?r))"
    using required_fields_assemble [of message q ?run] by (cases "fst ?run") simp_all
  have 2: "as_QueryResponse (assemble message q ?run) = Some ?r"
    by (rule as_QueryResponse_assemble)
  have 3: "query ?r = q" by (cases "fst ?run") simp_all
  have 4: "success ?r \<longleftrightarrow> (\<exists>a. fst ?run = Answering a)"
    by (cases "fst ?run") simp_all
  have 5: "\<forall>e. fst ?run = Failed e \<longrightarrow> \<not> success ?r \<and> error ?r = Some (message e)"
    by (cases "fst ?run") simp_all
  have 6: "queryCsv (\<lambda>i t. Ok (Resolves ?r)) sid q st =
             (Some ?r, \<lparr>isLoading = False, error_state = None\<rparr>)"
    by (simp add: queryCsv_def api_call_Ok)
  show "\<exists>r. field (js ''success'')
               (body (fst (post_query service tools limit message now sid q reg))) =
               Some (JBool (success r)) \<and>
           as_QueryResponse (body (fst (post_query service tools limit message now sid q reg))) =
             Some r \<and>
           query r = q \<and>
           (success r \<longleftrightarrow> (\<exists>a. fst ?run = Answering a)) \<and>
           (\<forall>e. fst ?run = Failed e \<longrightarrow> \<not> success r \<and> error r = Some (message e)) \<and>
           queryCsv (\<lambda>i t. Ok (Resolves r)) sid q st =
             (Some r, \<lparr>isLoading = False, error_state = None\<rparr>)"
    unfolding b
    by (rule exI [of _ ?r]) (intro conjI 1 2 3 4 5 6)
qed


theorem post_query_response_witness:
  "status (fst (post_query failing_service (\<lambda>d. no_tools) 3 plain_message 2000 (js ''nope'')
                  (js ''q'') one_session)) = 404 \<and>
   status (fst (post_query failing_service (\<lambda>d. no_tools) 3 plain_message 2000 (js ''s1'')
                  (js ''q'') one_session)) = 200 \<and>
   body (fst (post_query failing_service (\<lambda>d. no_tools) 3 plain_message 2000 (js ''s1'')
                (js ''q'') one_session)) =
     JObj [(js ''success'', JBool False),
           (js ''error'', JStr (js ''The answering service is unavailable.'')),
           (js ''query'', JStr (js ''q''))]"
proof -
  let ?s = "\<lparr>dataset = (), original_filename = js ''data.csv'', created_at = 1000,
           last_access = 1000::nat\<rparr>"
  have other: "js ''nope'' \<noteq> js ''s1''" by (simp add: js_def)
  then have u: "one_session (js ''nope'') = None \<or>
      (\<exists>s. one_session (js ''nope'') = Some s \<and> expired 2000 s)"
    by (simp add: one_session_def registry_create_def)
  have k: "one_session (js ''s1'') = Some ?s \<and> \<not> expired 2000 ?s"
    by (simp add: one_session_def registry_create_def expired_def TTL_def)
  note T = post_query_response [where reg = one_session and now = 2000
      and service = failing_service and tools = "\<lambda>d. no_tools" and limit = 3
      and message = plain_message and q = "js ''q''"]
  have a: "status (fst (post_query failing_service (\<lambda>d. no_tools) 3 plain_message 2000
              (js ''nope'') (js ''q'') one_session)) = 404"
    by (rule T [where sid = "js ''nope''", THEN conjunct1, THEN mp, OF u, THEN conjunct1])
  have b: "status (fst (post_query failing_service (\<lambda>d. no_tools) 3 plain_message 2000
              (js ''s1'') (js ''q'') one_session)) = 200"
    by (rule T [where sid = "js ''s1''" and s = ?s, THEN conjunct2, THEN mp, OF k,
          THEN conjunct1])
  have run: "fst (orchestrate failing_service no_tools 3 (js ''q'')) = Failed UpstreamUnavailable"
    by (simp add: orchestrate_def failing_service_def decide_def eval_nat_numeral)
  have c: "body (fst (post_query failing_service (\<lambda>d. no_tools) 3 plain_message 2000 (js ''s1'')
                (js ''q'') one_session)) =
     JObj [(js ''success'', JBool False),
           (js ''error'', JStr (js ''The answering service is unavailable.'')),
           (js ''query'', JStr (js ''q''))]"
    using k by (simp add: post_query_found [where s = ?s] assemble_Failed [OF run])
  from a b c show ?thesis by (intro conjI)
qed

end
